theory Spec2Isabelle
  imports Complex_Main "HOL-Library.Log_Nat"
begin

chapter \<open>The VOID buy bot: classification, thresholds, ranks, dedup and delivery\<close>

text \<open>
  A shallow embedding of \<^verbatim>\<open>src/telegram/ranks.ts\<close> and \<^verbatim>\<open>src/telegram/buybot.ts\<close>.
  Every definition carries the name of the TypeScript function or constant it embeds.
\<close>

section \<open>JavaScript numbers\<close>

text \<open>
  A JavaScript \<^verbatim>\<open>number\<close> is an IEEE-754 binary64 value. Every finite double is a
  rational, so a number is modelled as a \<^typ>\<open>rat\<close>, and each arithmetic operation is the
  exact operation followed by \<open>fl\<close>, rounding to nearest with ties to even on a 53-bit
  significand (subnormals included). \<open>NaN\<close>, the infinities and the sign of zero are not
  modelled: no computation below leaves the finite range on the inputs considered, and
  \<open>-0\<close> compares like \<open>0\<close>.
\<close>

type_synonym number = rat

definition scaled :: "int \<Rightarrow> int \<Rightarrow> int \<Rightarrow> int \<times> int" where
  \<comment> \<open>numerator and denominator of \<open>(p / q) / 2\<^sup>e\<close>\<close>
  "scaled p q e = (if 0 \<le> e then (p, q * 2 ^ nat e) else (p * 2 ^ nat (- e), q))"

definition ilog2 :: "int \<Rightarrow> int \<Rightarrow> int" where
  \<comment> \<open>\<open>\<lfloor>log\<^sub>2 (p / q)\<rfloor>\<close> for \<open>0 < p\<close> and \<open>0 < q\<close>, from the two bit lengths\<close>
  "ilog2 p q = (let k = bitlen p - bitlen q in
     case scaled p q k of (n, d) \<Rightarrow> if d \<le> n then k else k - 1)"

definition round_half_even :: "int \<Rightarrow> int \<Rightarrow> int" where
  \<comment> \<open>the integer nearest to \<open>n / d\<close> (\<open>0 < d\<close>), a tie going to the even neighbour\<close>
  "round_half_even n d = (let m = n div d; r = n mod d in
     if 2 * r < d then m else if d < 2 * r then m + 1 else if even m then m else m + 1)"

definition fl :: "rat \<Rightarrow> number" where
  \<comment> \<open>the double nearest to \<open>x = p / q\<close>: the significand \<open>\<bar>x\<bar> / 2\<^sup>e\<close> rounded to an integer
      below \<open>2\<^sup>5\<^sup>3\<close>, with the sign of \<open>x\<close>, times \<open>2\<^sup>e\<close>\<close>
  "fl x = (case quotient_of x of (p, q) \<Rightarrow>
     if p = 0 then 0 else
     (let e = max (ilog2 \<bar>p\<bar> q - 52) (- 1074) in
      case scaled \<bar>p\<bar> q e of (n, d) \<Rightarrow>
        (let m = sgn p * round_half_even n d
         in if 0 \<le> e then of_int (m * 2 ^ nat e) else Fract m (2 ^ nat (- e)))))"

definition js_add :: "number \<Rightarrow> number \<Rightarrow> number" where
  "js_add a b = fl (a + b)"

definition js_sub :: "number \<Rightarrow> number \<Rightarrow> number" where
  "js_sub a b = fl (a - b)"

definition js_mul :: "number \<Rightarrow> number \<Rightarrow> number" where
  "js_mul a b = fl (a * b)"

definition js_div :: "number \<Rightarrow> number \<Rightarrow> number" where
  "js_div a b = fl (a / b)"

definition Math_round :: "number \<Rightarrow> int" where
  \<comment> \<open>\<^verbatim>\<open>Math.round\<close>: the nearest integer, a tie going towards \<open>+\<infinity>\<close>\<close>
  "Math_round x = \<lfloor>x + 1 / 2\<rfloor>"

definition Math_floor :: "number \<Rightarrow> int" where
  "Math_floor x = \<lfloor>x\<rfloor>"

definition Math_abs :: "number \<Rightarrow> number" where
  "Math_abs x = \<bar>x\<bar>"

text \<open>A number literal of the source denotes the double nearest to its decimal value.\<close>

definition lit :: "rat \<Rightarrow> number" where
  "lit x = fl x"

section \<open>Strings\<close>

primrec starts_with :: "string \<Rightarrow> string \<Rightarrow> bool" where
  "starts_with s [] = True"
| "starts_with s (c # cs) = (case s of [] \<Rightarrow> False | d # ds \<Rightarrow> c = d \<and> starts_with ds cs)"

primrec str_includes :: "string \<Rightarrow> string \<Rightarrow> bool" where
  \<comment> \<open>\<^verbatim>\<open>String.prototype.includes\<close>: the second string occurs somewhere in the first\<close>
  "str_includes [] sub = (sub = [])"
| "str_includes (c # cs) sub = (starts_with (c # cs) sub \<or> str_includes cs sub)"

definition digit_char :: "nat \<Rightarrow> char" where
  "digit_char d = ''0123456789'' ! d"

fun show_nat :: "nat \<Rightarrow> string" where
  "show_nat n = (if n < 10 then [digit_char n] else show_nat (n div 10) @ [digit_char (n mod 10)])"

declare show_nat.simps [simp del]

definition show_int :: "int \<Rightarrow> string" where
  \<comment> \<open>an integer-valued number inside a template literal\<close>
  "show_int i = (if i < 0 then CHR ''-'' # show_nat (nat (- i)) else show_nat (nat i))"

fun findIndex :: "('a \<Rightarrow> bool) \<Rightarrow> 'a list \<Rightarrow> int" where
  \<comment> \<open>\<^verbatim>\<open>Array.prototype.findIndex\<close>: the first position that satisfies the test, or \<open>-1\<close>\<close>
  "findIndex P [] = - 1"
| "findIndex P (x # xs) =
     (if P x then 0 else (let i = findIndex P xs in if i = - 1 then - 1 else i + 1))"

section \<open>ranks.ts\<close>

record VoidRank =
  name :: string
  threshold :: number

definition VOID_RANKS :: "VoidRank list" where
  "VOID_RANKS = [
    \<lparr>name = ''VOID Ultimate'', threshold = 2000000\<rparr>,
    \<lparr>name = ''VOID Omega'', threshold = 1500000\<rparr>,
    \<lparr>name = ''VOID Absolute'', threshold = 1000000\<rparr>,
    \<lparr>name = ''VOID Singularity'', threshold = 900000\<rparr>,
    \<lparr>name = ''VOID Omnipotence'', threshold = 850000\<rparr>,
    \<lparr>name = ''VOID Eternity'', threshold = 800000\<rparr>,
    \<lparr>name = ''VOID Apotheosis'', threshold = 750000\<rparr>,
    \<lparr>name = ''VOID Divine'', threshold = 650000\<rparr>,
    \<lparr>name = ''VOID Celestial'', threshold = 600000\<rparr>,
    \<lparr>name = ''VOID Exalted'', threshold = 550000\<rparr>,
    \<lparr>name = ''VOID Transcendent'', threshold = 500000\<rparr>,
    \<lparr>name = ''VOID Majesty'', threshold = 450000\<rparr>,
    \<lparr>name = ''VOID Sovereign'', threshold = 400000\<rparr>,
    \<lparr>name = ''VOID Monarch'', threshold = 350000\<rparr>,
    \<lparr>name = ''VOID Admiral'', threshold = 300000\<rparr>,
    \<lparr>name = ''VOID Warden'', threshold = 250000\<rparr>,
    \<lparr>name = ''VOID Harbinger'', threshold = 225000\<rparr>,
    \<lparr>name = ''VOID Evoker'', threshold = 200000\<rparr>,
    \<lparr>name = ''VOID Emperor'', threshold = 175000\<rparr>,
    \<lparr>name = ''VOID Guardian'', threshold = 150000\<rparr>,
    \<lparr>name = ''VOID Berserker'', threshold = 135000\<rparr>,
    \<lparr>name = ''VOID Juggernaut'', threshold = 120000\<rparr>,
    \<lparr>name = ''VOID Lord'', threshold = 100000\<rparr>,
    \<lparr>name = ''VOID Alchemist'', threshold = 90000\<rparr>,
    \<lparr>name = ''VOID Clairvoyant'', threshold = 85000\<rparr>,
    \<lparr>name = ''VOID Conjurer'', threshold = 80000\<rparr>,
    \<lparr>name = ''VOID Archdruid'', threshold = 70000\<rparr>,
    \<lparr>name = ''VOID Sorcerer'', threshold = 50000\<rparr>,
    \<lparr>name = ''VOID Shaman'', threshold = 45000\<rparr>,
    \<lparr>name = ''VOID Sage'', threshold = 40000\<rparr>,
    \<lparr>name = ''VOID Warrior'', threshold = 35000\<rparr>,
    \<lparr>name = ''VOID Enchanter'', threshold = 30000\<rparr>,
    \<lparr>name = ''VOID Seer'', threshold = 27500\<rparr>,
    \<lparr>name = ''VOID Necromancer'', threshold = 25000\<rparr>,
    \<lparr>name = ''VOID Summoner'', threshold = 22500\<rparr>,
    \<lparr>name = ''VOID Master'', threshold = 20000\<rparr>,
    \<lparr>name = ''VOID Disciple'', threshold = 15000\<rparr>,
    \<lparr>name = ''VOID Acolyte'', threshold = 12500\<rparr>,
    \<lparr>name = ''VOID Expert'', threshold = 10000\<rparr>,
    \<lparr>name = ''VOID Apprentice'', threshold = 7500\<rparr>,
    \<lparr>name = ''VOID Rookie'', threshold = 5000\<rparr>,
    \<lparr>name = ''VOID Learner'', threshold = 2500\<rparr>,
    \<lparr>name = ''VOID Initiate'', threshold = 1000\<rparr>,
    \<lparr>name = ''VOID Peasant'', threshold = 1\<rparr>]"

text \<open>The \<^verbatim>\<open>for (const rank of VOID_RANKS)\<close> loop of \<^verbatim>\<open>getVoidRank\<close>, over the rest of the table.\<close>

fun getVoidRank_loop :: "VoidRank list \<Rightarrow> number \<Rightarrow> string" where
  "getVoidRank_loop [] balance = ''VOID Peasant''"
| "getVoidRank_loop (rank # ranks) balance =
     (if threshold rank \<le> balance then name rank else getVoidRank_loop ranks balance)"

definition getVoidRank :: "number \<Rightarrow> string" where
  "getVoidRank balance = getVoidRank_loop VOID_RANKS balance"

definition rankIndexOf :: "string \<Rightarrow> int" where
  \<comment> \<open>\<^verbatim>\<open>VOID_RANKS.findIndex(r => r.name === rankName)\<close>\<close>
  "rankIndexOf rankName = findIndex (\<lambda>r. name r = rankName) VOID_RANKS"

definition imageNum :: "int \<Rightarrow> int" where
  \<comment> \<open>the image number \<^verbatim>\<open>getRankImageUrl\<close> computes from a rank index it has found;
      \<^verbatim>\<open>totalRanks - 1\<close> and \<^verbatim>\<open>2 + Math.round(...)\<close> are exact on these small integers\<close>
  "imageNum rankIndex =
     (let totalRanks = int (length VOID_RANKS);
          normalized = js_sub 1 (js_div (of_int rankIndex) (of_int (totalRanks - 1)))
      in 2 + Math_round (js_mul normalized 43))"

definition getRankImageUrl :: "string \<Rightarrow> string" where
  "getRankImageUrl rankName =
     (let rankIndex = rankIndexOf rankName in
      if rankIndex = - 1 then ''https://voidsolana.com/ranks/rank2.png''
      else ''https://voidsolana.com/ranks/rank'' @ show_int (imageNum rankIndex) @ ''.png'')"


section \<open>buybot.ts: configuration and constants\<close>

text \<open>
  The values read from the environment at start-up. \<open>VOID_MINT\<close> and \<open>POOL_ID\<close> stand for
  the base58 text of the two public keys, \<open>BASE_INTERVAL\<close> for a whole number of
  milliseconds.
\<close>

record config =
  VOID_MINT :: string
  POOL_ID :: string
  MIN_BUY_USD :: number
  MIN_ARB_USD :: number
  ARB_BALANCE_THRESHOLD :: number
  BURN_IMAGE_URL :: string
  ARB_IMAGE_URL :: string
  BASE_INTERVAL :: int

definition METEORA_POOL_W_VOID :: string where
  "METEORA_POOL_W_VOID = ''6rE8Ej3aae9QBukLYWFvzDAYmRgsygpKK1LbqLjHJGcL''"

definition METEORA_POOL_P_VOID :: string where
  "METEORA_POOL_P_VOID = ''5jW3M4defHZgCAt27FQU7upeELu5yWroiax9nmd2Bv62''"

definition POOLS :: "config \<Rightarrow> string list" where
  "POOLS cfg = [POOL_ID cfg, METEORA_POOL_W_VOID, METEORA_POOL_P_VOID]"

definition VOID_TOTAL_SUPPLY :: number where
  "VOID_TOTAL_SUPPLY = 100000000"

definition INCINERATOR :: string where
  "INCINERATOR = ''1nc1nerator11111111111111111111111111111111''"

definition DEAD_ADDRESS :: string where
  "DEAD_ADDRESS = ''11111111111111111111111111111111''"

definition HELPER_WALLET :: string where
  "HELPER_WALLET = ''CEJnLWLEzRGSaeaoWKVSnhA4QD4mZaRY9sQbz4NNfyLz''"

datatype js_error = TypeError | RangeError

section \<open>buybot.ts: transaction dedup\<close>

text \<open>
  \<^verbatim>\<open>processedTxs\<close> is a JavaScript \<^verbatim>\<open>Set<string>\<close>, which iterates in insertion
  order: it is the list of its members, oldest first, without repetition.
  \<^verbatim>\<open>values().next().value\<close> is the head of the list (\<^verbatim>\<open>undefined\<close> for an empty set),
  and \<^verbatim>\<open>if (first)\<close> passes for every string but the empty one.
\<close>

definition MAX_PROCESSED :: nat where
  "MAX_PROCESSED = 2000"

definition markProcessed :: "string \<Rightarrow> string list \<Rightarrow> bool \<times> string list" where
  "markProcessed sig processedTxs =
     (if sig \<in> set processedTxs then (False, processedTxs)
      else
        (let evicted =
           (if MAX_PROCESSED \<le> length processedTxs then
              (case processedTxs of
                 [] \<Rightarrow> processedTxs
               | first # rest \<Rightarrow> if first \<noteq> [] then rest else processedTxs)
            else processedTxs)
         in (True, evicted @ [sig])))"

text \<open>The window after a sequence of calls, one signature per call.\<close>

definition markAll :: "string list \<Rightarrow> string list \<Rightarrow> string list" where
  "markAll sigs processedTxs = fold (\<lambda>sig w. snd (markProcessed sig w)) sigs processedTxs"

section \<open>buybot.ts: the price cache\<close>

record Price =
  usd :: number
  solPrice :: number

record CachedPrice = Price +
  ts :: int

text \<open>
  What the market-data request of one call does if it is made: it throws, it answers
  without a usable \<^verbatim>\<open>pairs[0].priceUsd\<close>, or it answers with a pair, given here by
  \<^verbatim>\<open>parseFloat(pair.priceUsd)\<close> and \<^verbatim>\<open>parseFloat(pair.priceNative || "0")\<close>.
\<close>

datatype fetch_result = FetchThrows | NoPriceUsd | Pair number number

text \<open>
  The module state of the oracle: the cache slot, and a count of the requests made so far
  (the count is not in the source; it records the effect a claim speaks about).
\<close>

record price_state =
  cachedPrice :: "CachedPrice option"
  fetches :: nat

definition fetchPrice :: "fetch_result \<Rightarrow> int \<Rightarrow> price_state \<Rightarrow> Price option \<times> price_state" where
  \<comment> \<open>the \<^verbatim>\<open>try\<close> block of \<^verbatim>\<open>getVoidPrice\<close>; \<open>captured\<close> is \<^verbatim>\<open>Date.now()\<close> when the answer is stored\<close>
  "fetchPrice resp captured st =
     (case resp of
        FetchThrows \<Rightarrow> (None, st\<lparr>fetches := fetches st + 1\<rparr>)
      | NoPriceUsd \<Rightarrow> (None, st\<lparr>fetches := fetches st + 1\<rparr>)
      | Pair u s \<Rightarrow>
          (Some \<lparr>usd = u, solPrice = s\<rparr>,
           \<lparr>cachedPrice = Some \<lparr>usd = u, solPrice = s, ts = captured\<rparr>,
            fetches = fetches st + 1\<rparr>))"

definition getVoidPrice ::
  "int \<Rightarrow> fetch_result \<Rightarrow> int \<Rightarrow> price_state \<Rightarrow> Price option \<times> price_state" where
  \<comment> \<open>\<open>now\<close> is \<^verbatim>\<open>Date.now()\<close> at the cache test\<close>
  "getVoidPrice now resp captured st =
     (case cachedPrice st of
        Some c \<Rightarrow>
          if now - ts c < 30000 then (Some \<lparr>usd = usd c, solPrice = solPrice c\<rparr>, st)
          else fetchPrice resp captured st
      | None \<Rightarrow> fetchPrice resp captured st)"

section \<open>buybot.ts: transaction classification\<close>

text \<open>
  One entry of \<^verbatim>\<open>preTokenBalances\<close> or \<^verbatim>\<open>postTokenBalances\<close>. \<open>owner\<close> is optional in
  the RPC type; \<open>uiAmount\<close> is \<^verbatim>\<open>uiTokenAmount.uiAmount\<close>, a number or \<^verbatim>\<open>null\<close>.
\<close>

record TokenBalance =
  accountIndex :: nat
  mint :: string
  owner :: "string option"
  uiAmount :: "number option"

record TxMeta =
  preTokenBalances :: "TokenBalance list option"
  postTokenBalances :: "TokenBalance list option"
  logMessages :: "string list option"

record ParsedTransaction =
  accountKeys :: "string list"
  meta :: "TxMeta option"

text \<open>
  The classification result: the handler \<^verbatim>\<open>processTransaction\<close> calls, with its arguments.
  The actor of a burn is optional because the burn-instruction rule passes
  \<^verbatim>\<open>preBal.owner!\<close>, which is \<^verbatim>\<open>undefined\<close> for an entry without owner.
\<close>

datatype Event =
  Burn string "string option" number
| Buy string string number number

definition orEmpty :: "'a list option \<Rightarrow> 'a list" where
  \<comment> \<open>\<^verbatim>\<open>x || []\<close>\<close>
  "orEmpty xs = (case xs of None \<Rightarrow> [] | Some ys \<Rightarrow> ys)"

definition amountOf :: "TokenBalance option \<Rightarrow> number" where
  \<comment> \<open>\<^verbatim>\<open>b?.uiTokenAmount?.uiAmount ?? 0\<close>\<close>
  "amountOf b = (case b of None \<Rightarrow> 0 | Some e \<Rightarrow> (case uiAmount e of None \<Rightarrow> 0 | Some a \<Rightarrow> a))"

definition byIndex :: "TokenBalance list \<Rightarrow> TokenBalance \<Rightarrow> TokenBalance option" where
  \<comment> \<open>\<^verbatim>\<open>balances.find(p => p.accountIndex === b.accountIndex)\<close>\<close>
  "byIndex balances b = find (\<lambda>p. accountIndex p = accountIndex b) balances"

definition isBurnLog :: "string list \<Rightarrow> bool" where
  "isBurnLog logs =
     list_ex (\<lambda>l. str_includes l ''Instruction: Burn'' \<or> str_includes l ''BurnChecked'') logs"

definition deadTransfers :: "config \<Rightarrow> TokenBalance list \<Rightarrow> TokenBalance list" where
  "deadTransfers cfg postBalances =
     filter (\<lambda>b. (owner b = Some INCINERATOR \<or> owner b = Some DEAD_ADDRESS) \<and> mint b = VOID_MINT cfg)
       postBalances"

definition findSender :: "config \<Rightarrow> TokenBalance list \<Rightarrow> TokenBalance list \<Rightarrow> number \<Rightarrow> TokenBalance option" where
  "findSender cfg preBalances postBalances gain =
     find (\<lambda>p.
        (let post = byIndex postBalances p;
             loss = js_sub (amountOf (Some p)) (amountOf post)
         in mint p = VOID_MINT cfg \<and> Math_abs (js_sub loss gain) < lit (1 / 1000)))
       preBalances"

text \<open>Rule 1.B, the loop over \<^verbatim>\<open>deadTransfers\<close>; \<open>Some\<close> is the call of \<^verbatim>\<open>handleBurn\<close> and the return.\<close>

fun sinkBurn :: "config \<Rightarrow> string \<Rightarrow> TokenBalance list \<Rightarrow> TokenBalance list \<Rightarrow> TokenBalance list \<Rightarrow> Event option" where
  "sinkBurn cfg signature preBalances postBalances [] = None"
| "sinkBurn cfg signature preBalances postBalances (dead # rest) =
     (let pre = byIndex preBalances dead;
          gain = js_sub (amountOf (Some dead)) (amountOf pre)
      in if 0 < gain then
           (let sender = findSender cfg preBalances postBalances gain;
                burner = (case sender of
                            None \<Rightarrow> ''Unknown''
                          | Some s \<Rightarrow> (case owner s of
                                        None \<Rightarrow> ''Unknown''
                                      | Some ow \<Rightarrow> if ow \<noteq> [] then ow else ''Unknown''))
            in Some (Burn signature (Some burner) gain))
         else sinkBurn cfg signature preBalances postBalances rest)"

definition poolGain :: "config \<Rightarrow> TokenBalance list \<Rightarrow> TokenBalance list \<Rightarrow> number" where
  \<comment> \<open>lines 323-325: the first post entry and the first pre entry owned by \<open>POOL_ID\<close>\<close>
  "poolGain cfg preBalances postBalances =
     (let poolBal = find (\<lambda>b. owner b = Some (POOL_ID cfg)) postBalances;
          poolPre = find (\<lambda>p. owner p = Some (POOL_ID cfg)) preBalances
      in js_sub (amountOf poolBal) (amountOf poolPre))"

definition lossOf :: "TokenBalance list \<Rightarrow> TokenBalance \<Rightarrow> number" where
  \<comment> \<open>line 319: what a pre entry lost\<close>
  "lossOf postBalances preBal = js_sub (amountOf (Some preBal)) (amountOf (byIndex postBalances preBal))"

text \<open>Rule 1.C, the loop over \<^verbatim>\<open>preBalances\<close> that runs when the log has a burn marker.\<close>

fun instructionBurn :: "config \<Rightarrow> string \<Rightarrow> TokenBalance list \<Rightarrow> TokenBalance list \<Rightarrow> TokenBalance list \<Rightarrow> Event option" where
  "instructionBurn cfg signature preBalances postBalances [] = None"
| "instructionBurn cfg signature preBalances postBalances (preBal # rest) =
     (if mint preBal \<noteq> VOID_MINT cfg then instructionBurn cfg signature preBalances postBalances rest
      else
        (let loss = lossOf postBalances preBal in
         if 0 < loss \<and> poolGain cfg preBalances postBalances < js_mul loss (lit (9 / 10))
         then Some (Burn signature (owner preBal) loss)
         else instructionBurn cfg signature preBalances postBalances rest))"

text \<open>The four variables of the buy sweep.\<close>

record sweep =
  totalBought :: number
  buyer :: string
  maxBuyerBalance :: number
  isTrade :: bool

definition deltaOf :: "TokenBalance list \<Rightarrow> TokenBalance \<Rightarrow> number" where
  \<comment> \<open>line 350: the change of a post entry\<close>
  "deltaOf preBalances postBal = js_sub (amountOf (Some postBal)) (amountOf (byIndex preBalances postBal))"

definition isPool :: "config \<Rightarrow> TokenBalance \<Rightarrow> bool" where
  \<comment> \<open>lines 354-355; \<^verbatim>\<open>undefined < 44\<close> is false\<close>
  "isPool cfg postBal =
     (list_ex (\<lambda>p. Some p = owner postBal) (POOLS cfg) \<or>
      (case owner postBal of None \<Rightarrow> False | Some ow \<Rightarrow> length ow < 44))"

definition sweepStep :: "config \<Rightarrow> TokenBalance list \<Rightarrow> TokenBalance \<Rightarrow> sweep \<Rightarrow> sweep" where
  \<comment> \<open>one turn of the loop over \<^verbatim>\<open>postBalances\<close>; in the comparison of line 362 a \<^verbatim>\<open>null\<close>
      amount counts as 0, and the branch is then not taken, \<open>maxBuyerBalance\<close> never being negative\<close>
  "sweepStep cfg preBalances postBal s =
     (if mint postBal \<noteq> VOID_MINT cfg then s
      else
        (let delta = deltaOf preBalances postBal in
         if delta < 0 then
           (if isPool cfg postBal
            then s\<lparr>totalBought := js_add (totalBought s) (Math_abs delta), isTrade := True\<rparr>
            else s)
         else if 0 < delta then
           (if maxBuyerBalance s < amountOf (Some postBal)
            then s\<lparr>maxBuyerBalance := amountOf (Some postBal),
                   buyer := (case owner postBal of
                               None \<Rightarrow> buyer s
                             | Some ow \<Rightarrow> if ow \<noteq> [] then ow else buyer s)\<rparr>
            else s)
         else s))"

definition buySweep :: "config \<Rightarrow> string \<Rightarrow> TokenBalance list \<Rightarrow> TokenBalance list \<Rightarrow> sweep" where
  "buySweep cfg feePayer preBalances postBalances =
     fold (sweepStep cfg preBalances) postBalances
       \<lparr>totalBought = 0, buyer = feePayer, maxBuyerBalance = 0, isTrade = False\<rparr>"

definition processTransaction :: "config \<Rightarrow> string \<Rightarrow> ParsedTransaction option \<Rightarrow> js_error + Event option" where
  \<comment> \<open>the argument is what \<^verbatim>\<open>getParsedTransaction\<close> returned; \<^verbatim>\<open>accountKeys[0]\<close> of an empty
      key list throws\<close>
  "processTransaction cfg signature fetched =
     (case fetched of
        None \<Rightarrow> Inr None
      | Some tx \<Rightarrow>
          (case meta tx of
             None \<Rightarrow> Inr None
           | Some m \<Rightarrow>
               (let preBalances = orEmpty (preTokenBalances m);
                    postBalances = orEmpty (postTokenBalances m);
                    logs = orEmpty (logMessages m)
                in case sinkBurn cfg signature preBalances postBalances (deadTransfers cfg postBalances) of
                     Some e \<Rightarrow> Inr (Some e)
                   | None \<Rightarrow>
                       (case (if isBurnLog logs
                              then instructionBurn cfg signature preBalances postBalances preBalances
                              else None) of
                          Some e \<Rightarrow> Inr (Some e)
                        | None \<Rightarrow>
                            (case accountKeys tx of
                               [] \<Rightarrow> Inl TypeError
                             | feePayer # _ \<Rightarrow>
                                 (let s = buySweep cfg feePayer preBalances postBalances in
                                  if isTrade s \<and> lit (1 / 100) < totalBought s \<and> buyer s \<noteq> HELPER_WALLET
                                  then Inr (Some (Buy signature (buyer s) (totalBought s) (maxBuyerBalance s)))
                                  else Inr None))))))"

section \<open>buybot.ts: notifications\<close>

datatype emoji = Robot | NutAndBolt | PurpleCircle | Fire

definition getBuyEmojis :: "number \<Rightarrow> bool \<Rightarrow> js_error + emoji list" where
  \<comment> \<open>ranks.ts; \<^verbatim>\<open>String.prototype.repeat\<close> throws a \<^verbatim>\<open>RangeError\<close> on a negative count\<close>
  "getBuyEmojis usdValue isArbitrage =
     (let pairCount = min (Math_floor (js_div usdValue (if isArbitrage then 100 else 50))) 48;
          pair = (if isArbitrage then [Robot, NutAndBolt] else [PurpleCircle, Fire])
      in if pairCount = 0 then Inr pair
         else if pairCount < 0 then Inl RangeError
         else Inr (concat (replicate (nat pairCount) pair)))"

text \<open>
  A caption is kept as the values its template interpolates, in the order of the template;
  their rendering as text (\<^verbatim>\<open>toFixed\<close>, \<^verbatim>\<open>toPrecision\<close>, the suffixes of
  \<^verbatim>\<open>formatNumber\<close>) is not modelled. In a buy caption the holder line is the
  \<^verbatim>\<open>View\<close> link address with the balance and the rank, present only when the buy is not an
  arbitrage.
\<close>

record BurnCaption =
  burnedAmount :: number
  burnedUsd :: number
  burnTotalBurned :: number
  burnSupply :: number
  burnTx :: string

record BuyCaption =
  emojis :: "emoji list"
  boughtAmount :: number
  boughtUsd :: number
  priceUsd :: number
  marketCap :: number
  totalBurned :: number
  percentBurned :: number
  buyTx :: string
  holderLine :: "(string \<times> number \<times> string) option"

datatype caption_text = BurnText BurnCaption | BuyText BuyCaption

record QueuedMessage =
  photo :: string
  caption :: caption_text
  pin :: "bool option"

text \<open>
  The two handlers return the messages they pass to \<^verbatim>\<open>enqueue\<close>, in order. Their
  \<open>price\<close> argument is the answer of \<^verbatim>\<open>getVoidPrice\<close>, \<open>currentSupply\<close> the answer of
  \<^verbatim>\<open>getCurrentSupply\<close>.
\<close>

definition handleBurn :: "config \<Rightarrow> Price option \<Rightarrow> number \<Rightarrow> string \<Rightarrow> string option \<Rightarrow> number \<Rightarrow> QueuedMessage list" where
  "handleBurn cfg price currentSupply signature burner amount =
     (case price of
        None \<Rightarrow> []
      | Some p \<Rightarrow>
          (let usdValue = js_mul amount (usd p);
               burned = js_sub VOID_TOTAL_SUPPLY currentSupply
           in [\<lparr>photo = BURN_IMAGE_URL cfg,
                caption = BurnText \<lparr>burnedAmount = amount, burnedUsd = usdValue,
                  burnTotalBurned = burned, burnSupply = currentSupply, burnTx = signature\<rparr>,
                pin = Some True\<rparr>]))"

definition isArbitrageBalance :: "config \<Rightarrow> number \<Rightarrow> bool" where
  \<comment> \<open>line 421\<close>
  "isArbitrageBalance cfg currentBalance = (currentBalance < ARB_BALANCE_THRESHOLD cfg)"

definition handleBuy ::
  "config \<Rightarrow> Price option \<Rightarrow> number \<Rightarrow> string \<Rightarrow> string \<Rightarrow> number \<Rightarrow> number \<Rightarrow> js_error + QueuedMessage list" where
  "handleBuy cfg price currentSupply signature buyerAddress voidAmount currentBalance =
     (case price of
        None \<Rightarrow> Inr []
      | Some p \<Rightarrow>
          (let usdValue = js_mul voidAmount (usd p);
               isArbitrage = isArbitrageBalance cfg currentBalance
           in if isArbitrage \<and> usdValue < MIN_ARB_USD cfg then Inr []
              else if \<not> isArbitrage \<and> usdValue < MIN_BUY_USD cfg then Inr []
              else
                (let burned = js_sub VOID_TOTAL_SUPPLY currentSupply;
                     percent = js_mul (js_div burned VOID_TOTAL_SUPPLY) 100;
                     cap = js_mul (usd p) currentSupply;
                     rank = getVoidRank currentBalance;
                     imageUrl = (if isArbitrage then ARB_IMAGE_URL cfg else getRankImageUrl rank)
                 in case getBuyEmojis usdValue isArbitrage of
                      Inl e \<Rightarrow> Inl e
                    | Inr es \<Rightarrow>
                        Inr [\<lparr>photo = imageUrl,
                              caption = BuyText \<lparr>emojis = es, boughtAmount = voidAmount,
                                boughtUsd = usdValue, priceUsd = usd p, marketCap = cap,
                                totalBurned = burned, percentBurned = percent, buyTx = signature,
                                holderLine = (if isArbitrage then None
                                              else Some (buyerAddress, currentBalance, rank))\<rparr>,
                              pin = None\<rparr>])))"

section \<open>buybot.ts: the delivery queue\<close>

text \<open>
  The channel is the list of messages that reached it, oldest first; the \<^verbatim>\<open>message_id\<close> of
  a delivered message is its position. \<open>pinned\<close> lists the pinned ids, \<open>journal\<close> the lines
  written by \<^verbatim>\<open>log\<close> in \<^verbatim>\<open>processQueue\<close>.
\<close>

datatype delivered = PhotoMessage string caption_text | TextMessage caption_text

datatype log_line = SentSuccessfully | FailedToSendPhoto | FailedToSendFallbackText

record bot_state =
  messageQueue :: "QueuedMessage list"
  isSending :: bool
  channel :: "delivered list"
  pinned :: "nat list"
  journal :: "log_line list"

text \<open>
  What the Telegram calls of one delivery attempt do when they are made: \<open>True\<close> for a
  call that resolves, \<open>False\<close> for one that rejects.
\<close>

record telegram =
  sendPhotoOk :: bool
  pinAfterPhotoOk :: bool
  sendMessageOk :: bool
  pinAfterTextOk :: bool

definition wantsPin :: "QueuedMessage \<Rightarrow> bool" where
  \<comment> \<open>\<^verbatim>\<open>if (msg.pin)\<close>\<close>
  "wantsPin msg = (pin msg = Some True)"

definition sendFallback :: "telegram \<Rightarrow> QueuedMessage \<Rightarrow> bot_state \<Rightarrow> bot_state" where
  \<comment> \<open>the \<^verbatim>\<open>catch (err)\<close> block, lines 107-121\<close>
  "sendFallback tg msg s =
     (let s1 = s\<lparr>journal := journal s @ [FailedToSendPhoto]\<rparr> in
      if sendMessageOk tg then
        (let sent = length (channel s1);
             s2 = s1\<lparr>channel := channel s1 @ [TextMessage (caption msg)]\<rparr>
         in if wantsPin msg then
              (if pinAfterTextOk tg then s2\<lparr>pinned := pinned s2 @ [sent]\<rparr>
               else s2\<lparr>journal := journal s2 @ [FailedToSendFallbackText]\<rparr>)
            else s2)
      else s1\<lparr>journal := journal s1 @ [FailedToSendFallbackText]\<rparr>)"

definition deliver :: "telegram \<Rightarrow> QueuedMessage \<Rightarrow> bot_state \<Rightarrow> bot_state" where
  \<comment> \<open>the \<^verbatim>\<open>try\<close> block, lines 94-105, with its \<^verbatim>\<open>catch\<close>\<close>
  "deliver tg msg s =
     (if sendPhotoOk tg then
        (let sent = length (channel s);
             s1 = s\<lparr>channel := channel s @ [PhotoMessage (photo msg) (caption msg)]\<rparr>
         in if wantsPin msg then
              (if pinAfterPhotoOk tg
               then s1\<lparr>pinned := pinned s1 @ [sent], journal := journal s1 @ [SentSuccessfully]\<rparr>
               else sendFallback tg msg s1)
            else s1\<lparr>journal := journal s1 @ [SentSuccessfully]\<rparr>)
      else sendFallback tg msg s)"

definition processQueue :: "telegram \<Rightarrow> bot_state \<Rightarrow> bot_state" where
  \<comment> \<open>one call, up to the \<^verbatim>\<open>setTimeout\<close>; \<^verbatim>\<open>isSending\<close> stays set until the timer fires\<close>
  "processQueue tg s =
     (if isSending s \<or> messageQueue s = [] then s
      else
        (case messageQueue s of
           [] \<Rightarrow> s
         | msg # rest \<Rightarrow> deliver tg msg (s\<lparr>isSending := True, messageQueue := rest\<rparr>)))"

definition enqueue :: "telegram \<Rightarrow> QueuedMessage \<Rightarrow> bot_state \<Rightarrow> bot_state" where
  "enqueue tg msg s = processQueue tg (s\<lparr>messageQueue := messageQueue s @ [msg]\<rparr>)"

definition onTimer :: "telegram \<Rightarrow> bot_state \<Rightarrow> bot_state" where
  \<comment> \<open>the callback of \<^verbatim>\<open>setTimeout(..., 2000)\<close>\<close>
  "onTimer tg s = processQueue tg (s\<lparr>isSending := False\<rparr>)"

section \<open>buybot.ts: the poll loop\<close>

text \<open>
  The outcome of \<^verbatim>\<open>await pollForSwaps()\<close>: it returns, or it throws an error whose
  \<^verbatim>\<open>String(err)\<close> is given. On HTTP status 429 \<^verbatim>\<open>pollForSwaps\<close> throws
  \<^verbatim>\<open>new Error("429 Too Many Requests")\<close>. Times are whole milliseconds, far below
  \<open>2\<^sup>5\<^sup>3\<close>, where double arithmetic is exact.
\<close>

datatype poll_outcome = Returned | Threw string

definition rateLimited :: poll_outcome where
  "rateLimited = Threw ''Error: 429 Too Many Requests''"

definition initialBackoff :: int where
  \<comment> \<open>\<^verbatim>\<open>let backoff = 1000\<close>\<close>
  "initialBackoff = 1000"

definition nextBackoff :: "poll_outcome \<Rightarrow> int \<Rightarrow> int" where
  \<comment> \<open>the \<^verbatim>\<open>try\<close>/\<^verbatim>\<open>catch\<close> of \<^verbatim>\<open>pollLoop\<close>\<close>
  "nextBackoff outcome backoff =
     (case outcome of
        Returned \<Rightarrow> 1000
      | Threw err \<Rightarrow> if str_includes err ''429'' then min (backoff * 2) 60000 else backoff)"

definition extraBackoff :: "int \<Rightarrow> int" where
  \<comment> \<open>\<^verbatim>\<open>backoff > 1000 ? backoff : 0\<close>\<close>
  "extraBackoff backoff = (if 1000 < backoff then backoff else 0)"

definition pollLoop :: "config \<Rightarrow> poll_outcome \<Rightarrow> int \<Rightarrow> int \<Rightarrow> int \<times> int" where
  \<comment> \<open>one cycle: the new \<^verbatim>\<open>backoff\<close> and the delay given to \<^verbatim>\<open>setTimeout\<close>\<close>
  "pollLoop cfg outcome elapsed backoff =
     (let backoff' = nextBackoff outcome backoff;
          delay = max 0 (BASE_INTERVAL cfg - elapsed) + extraBackoff backoff'
      in (backoff', delay))"

text \<open>The backoff after a run of cycles, given the outcome of each.\<close>

definition backoffAfter :: "poll_outcome list \<Rightarrow> int" where
  "backoffAfter outcomes = fold nextBackoff outcomes initialBackoff"

section \<open>Vocabulary of the claims about classification\<close>

text \<open>
  The entries the buy sweep counts on its two sides: a pool-side loser is a tracked-mint
  post entry with a negative change that \<open>isPool\<close> accepts, a gainer one with a positive
  change. \<open>addLoss\<close> and \<open>gainStep\<close> are what \<open>sweepStep\<close> does with each.
\<close>

definition poolLoser :: "config \<Rightarrow> TokenBalance list \<Rightarrow> TokenBalance \<Rightarrow> bool" where
  "poolLoser cfg preBalances b =
     (mint b = VOID_MINT cfg \<and> deltaOf preBalances b < 0 \<and> isPool cfg b)"

definition gainer :: "config \<Rightarrow> TokenBalance list \<Rightarrow> TokenBalance \<Rightarrow> bool" where
  "gainer cfg preBalances b = (mint b = VOID_MINT cfg \<and> 0 < deltaOf preBalances b)"

definition addLoss :: "TokenBalance list \<Rightarrow> TokenBalance \<Rightarrow> number \<Rightarrow> number" where
  "addLoss preBalances b bought = js_add bought (Math_abs (deltaOf preBalances b))"

definition gainStep :: "TokenBalance \<Rightarrow> number \<times> string \<Rightarrow> number \<times> string" where
  "gainStep b best =
     (if fst best < amountOf (Some b)
      then (amountOf (Some b),
            (case owner b of None \<Rightarrow> snd best | Some ow \<Rightarrow> if ow \<noteq> [] then ow else snd best))
      else best)"

text \<open>
  The spec's \<open>poolGain\<close>: the change of the tracked pool's balance in the tracked mint, read
  from the first entry of each list that the pool owns and that holds the tracked mint. A
  burn candidate is a tracked-mint pre entry that lost tokens the pool did not absorb.
\<close>

definition trackedPoolGain :: "config \<Rightarrow> TokenBalance list \<Rightarrow> TokenBalance list \<Rightarrow> number" where
  "trackedPoolGain cfg preBalances postBalances =
     js_sub
       (amountOf (find (\<lambda>b. owner b = Some (POOL_ID cfg) \<and> mint b = VOID_MINT cfg) postBalances))
       (amountOf (find (\<lambda>p. owner p = Some (POOL_ID cfg) \<and> mint p = VOID_MINT cfg) preBalances))"

definition loses :: "config \<Rightarrow> TokenBalance list \<Rightarrow> TokenBalance \<Rightarrow> bool" where
  "loses cfg postBalances b = (mint b = VOID_MINT cfg \<and> 0 < lossOf postBalances b)"

definition burnCandidate :: "config \<Rightarrow> TokenBalance list \<Rightarrow> TokenBalance list \<Rightarrow> TokenBalance \<Rightarrow> bool" where
  "burnCandidate cfg preBalances postBalances b =
     (loses cfg postBalances b \<and>
      trackedPoolGain cfg preBalances postBalances < js_mul (lossOf postBalances b) (lit (9 / 10)))"

definition poolEntriesTracked :: "config \<Rightarrow> TokenBalance list \<Rightarrow> bool" where
  \<comment> \<open>every entry owned by the tracked pool holds the tracked mint\<close>
  "poolEntriesTracked cfg balances =
     list_all (\<lambda>b. owner b \<noteq> Some (POOL_ID cfg) \<or> mint b = VOID_MINT cfg) balances"

definition isBurnEvent :: "js_error + Event option \<Rightarrow> bool" where
  "isBurnEvent r = (case r of Inr (Some (Burn s a n)) \<Rightarrow> True | _ \<Rightarrow> False)"

section \<open>Sample inputs\<close>

text \<open>
  The configuration when only the required variables are set: every optional variable has
  the default written in the source. The two addresses are placeholders of the usual
  44 characters.
\<close>

definition sampleMint :: string where
  "sampleMint = ''VoidMint1111111111111111111111111111111111AA''"

definition samplePool :: string where
  "samplePool = ''RaydiumPoo11111111111111111111111111111111BB''"

definition defaultConfig :: config where
  "defaultConfig =
     \<lparr>VOID_MINT = sampleMint, POOL_ID = samplePool,
      MIN_BUY_USD = 25, MIN_ARB_USD = 25, ARB_BALANCE_THRESHOLD = 500,
      BURN_IMAGE_URL = ''https://voidsolana.com/burn.jpg'',
      ARB_IMAGE_URL = ''https://voidsolana.com/arbitrage.jpg'',
      BASE_INTERVAL = 30000\<rparr>"

text \<open>A burn notification as \<^verbatim>\<open>handleBurn\<close> builds it, and an idle bot with that one message queued.\<close>

definition burnNotice :: QueuedMessage where
  "burnNotice =
     \<lparr>photo = ''https://voidsolana.com/burn.jpg'',
      caption = BurnText \<lparr>burnedAmount = 100, burnedUsd = 25, burnTotalBurned = 100,
        burnSupply = 99999900, burnTx = ''sig1''\<rparr>,
      pin = Some True\<rparr>"

definition idleWith :: "QueuedMessage list \<Rightarrow> bot_state" where
  "idleWith msgs = \<lparr>messageQueue = msgs, isSending = False, channel = [], pinned = [], journal = []\<rparr>"

text \<open>A chat in which the bot may post but may not pin.\<close>

definition pinRejected :: telegram where
  "pinRejected = \<lparr>sendPhotoOk = True, pinAfterPhotoOk = False, sendMessageOk = True, pinAfterTextOk = False\<rparr>"

text \<open>
  A family of pairwise different signatures, and runs of it; \<open>sigOf 0\<close> is the empty string,
  every other member is non-empty.
\<close>

definition sigOf :: "nat \<Rightarrow> string" where
  "sigOf n = replicate n (CHR ''s'')"

definition sigRun :: "nat \<Rightarrow> nat \<Rightarrow> string list" where
  "sigRun i j = map sigOf [i..<j]"

text \<open>Two wallet addresses of 44 characters, and transactions built from a few entries.\<close>

definition sampleWallet :: string where
  "sampleWallet = ''Wa11etHo1der111111111111111111111111111111CC''"

definition sampleSeller :: string where
  "sampleSeller = ''Se11erWa11et111111111111111111111111111111DD''"

definition entry :: "nat \<Rightarrow> string \<Rightarrow> string \<Rightarrow> number \<Rightarrow> TokenBalance" where
  "entry i m ow a = \<lparr>accountIndex = i, mint = m, owner = Some ow, uiAmount = Some a\<rparr>"

definition txOf :: "string \<Rightarrow> string list \<Rightarrow> TokenBalance list \<Rightarrow> TokenBalance list \<Rightarrow> ParsedTransaction" where
  "txOf feePayer logs pre post =
     \<lparr>accountKeys = [feePayer],
      meta = Some \<lparr>preTokenBalances = Some pre, postTokenBalances = Some post, logMessages = Some logs\<rparr>\<rparr>"

text \<open>
  A seller loses 100 tokens while the tracked pool gains \<open>g\<close>, next to a burn instruction in
  the log.
\<close>

definition sellWithBurnLog :: "number \<Rightarrow> ParsedTransaction" where
  "sellWithBurnLog g =
     txOf sampleSeller [''Program log: Instruction: Burn'']
       [entry 1 sampleMint sampleSeller 100, entry 2 sampleMint samplePool 1000]
       [entry 1 sampleMint sampleSeller 0, entry 2 sampleMint samplePool (1000 + g)]"

text \<open>
  The same sale of 100 tokens, all of them gained by the tracked pool, in a transaction that
  lists the pool's account of another mint first; that account pays out one token.
\<close>

definition otherMint :: string where
  "otherMint = ''So11111111111111111111111111111111111111112''"

definition sellListingOtherMint :: ParsedTransaction where
  "sellListingOtherMint =
     txOf sampleSeller [''Program log: Instruction: Burn'']
       [entry 1 otherMint samplePool 500, entry 2 sampleMint sampleSeller 100,
        entry 3 sampleMint samplePool 1000]
       [entry 1 otherMint samplePool 499, entry 2 sampleMint sampleSeller 0,
        entry 3 sampleMint samplePool 1100]"

text \<open>Two accounts lose 100 and 50 tokens next to a burn instruction; no pool is involved.\<close>

definition twoLosers :: ParsedTransaction where
  "twoLosers =
     txOf sampleSeller [''Program log: Instruction: Burn'']
       [entry 1 sampleMint sampleSeller 100, entry 2 sampleMint sampleWallet 50]
       [entry 1 sampleMint sampleSeller 0, entry 2 sampleMint sampleWallet 0]"


text \<open>A pool-owned account loses 50 tokens and no tracked-mint balance of the transaction grows.\<close>

definition poolOutflowOnly :: ParsedTransaction where
  "poolOutflowOnly =
     txOf sampleWallet [''Program log: Instruction: Swap'']
       [entry 1 sampleMint samplePool 1000]
       [entry 1 sampleMint samplePool 950]"

section \<open>Properties of the number model\<close>

lemma scaled_pos: "0 \<le> p \<Longrightarrow> 0 < q \<Longrightarrow> scaled p q e = (n, d) \<Longrightarrow> 0 \<le> n \<and> 0 < d"
  by (auto simp: scaled_def split: if_splits)

lemma round_half_even_nonneg: "0 \<le> n \<Longrightarrow> 0 < d \<Longrightarrow> 0 \<le> round_half_even n d"
  by (simp add: round_half_even_def Let_def pos_imp_zdiv_nonneg_iff)

text \<open>Rounding keeps the sign: the result is on the side of zero where the argument is.\<close>

lemma fl_sign:
  "(0 \<le> x \<longrightarrow> 0 \<le> fl x) \<and> (x \<le> 0 \<longrightarrow> fl x \<le> 0)"
proof -
  obtain p q where pq: "quotient_of x = (p, q)" by (cases "quotient_of x")
  then have q: "0 < q" by (rule quotient_of_denom_pos)
  have x: "x = of_int p / of_int q" using pq by (rule quotient_of_div)
  have sp: "(0 \<le> x) = (0 \<le> p)" and sn: "(x \<le> 0) = (p \<le> 0)"
    using q by (simp_all add: x zero_le_divide_iff divide_le_0_iff)
  show ?thesis
  proof (cases "p = 0")
    case True
    then show ?thesis by (simp add: fl_def pq)
  next
    case False
    define e where "e = max (ilog2 \<bar>p\<bar> q - 52) (- 1074)"
    obtain n d where nd: "scaled \<bar>p\<bar> q e = (n, d)" by (cases "scaled \<bar>p\<bar> q e")
    with q have "0 \<le> n \<and> 0 < d" by (intro scaled_pos [of "\<bar>p\<bar>" q e]) simp_all
    then have r: "0 \<le> round_half_even n d" by (simp add: round_half_even_nonneg)
    have f: "fl x = (if 0 \<le> e then of_int (sgn p * round_half_even n d * 2 ^ nat e)
                     else Fract (sgn p * round_half_even n d) (2 ^ nat (- e)))"
      using False by (simp add: fl_def pq e_def [symmetric] nd Let_def)
    have m: "(0 \<le> p \<longrightarrow> 0 \<le> sgn p * round_half_even n d) \<and>
             (p \<le> 0 \<longrightarrow> sgn p * round_half_even n d \<le> 0)"
      using r by (auto simp: sgn_if mult_le_0_iff zero_le_mult_iff)
    show ?thesis
    proof (cases "0 \<le> e")
      case True
      with f m show ?thesis
        by (auto simp: sp sn zero_le_mult_iff mult_le_0_iff)
    next
      case False
      with f m show ?thesis
        by (auto simp: sp sn zero_le_Fract_iff Fract_le_zero_iff)
    qed
  qed
qed

lemma fl_nonneg: "0 \<le> x \<Longrightarrow> 0 \<le> fl x"
  using fl_sign by blast

lemma fl_nonpos: "x \<le> 0 \<Longrightarrow> fl x \<le> 0"
  using fl_sign by blast

lemma js_sub_pos_imp: "0 < js_sub a b \<Longrightarrow> b < a"
  using fl_nonpos [of "a - b"] by (auto simp: js_sub_def not_le [symmetric])

lemma js_sub_neg_imp: "js_sub a b < 0 \<Longrightarrow> a < b"
  using fl_nonneg [of "a - b"] by (auto simp: js_sub_def not_le [symmetric])


text \<open>
  Two familiar facts of binary64 arithmetic, as a check of the model: \<open>0.1 + 0.2\<close> is not
  \<open>0.3\<close> but the next double above it, and \<open>100 * 0.9\<close> is exactly 90.
\<close>

lemma doubles_as_in_javascript:
  "js_add (lit (1 / 10)) (lit (2 / 10)) = 1351079888211149 / 4503599627370496 \<and>
   lit (3 / 10) = 5404319552844595 / 18014398509481984 \<and>
   js_mul 100 (lit (9 / 10)) = 90"
  by code_simp

text \<open>Values of the model the proofs below use.\<close>

lemma lit_tenth_of_nine: "lit (9 / 10) = 8106479329266893 / 9007199254740992"
  by code_simp






section \<open>Properties of ranks.ts\<close>

subsection \<open>The table\<close>

lemma length_VOID_RANKS: "length VOID_RANKS = 44"
  by (simp add: VOID_RANKS_def)

lemma distinct_rank_names: "distinct (map name VOID_RANKS)"
  by (simp add: VOID_RANKS_def)

lemma last_rank: "name (VOID_RANKS ! 43) = ''VOID Peasant''"
  by (simp add: VOID_RANKS_def)

lemma findIndex_nth:
  "distinct (map f xs) \<Longrightarrow> k < length xs \<Longrightarrow> findIndex (\<lambda>x. f x = f (xs ! k)) xs = int k"
proof (induction xs arbitrary: k)
  case Nil
  then show ?case by simp
next
  case (Cons x xs)
  show ?case
  proof (cases k)
    case 0
    then show ?thesis by simp
  next
    case (Suc j)
    with Cons.prems have j: "j < length xs" and d: "distinct (map f xs)"
      and nx: "f x \<notin> f ` set xs"
      by auto
    from j nx have "f x \<noteq> f (xs ! j)" by (metis imageI nth_mem)
    moreover have "findIndex (\<lambda>y. f y = f (xs ! j)) xs = int j" using Cons.IH [OF d j] .
    ultimately show ?thesis using Suc by (simp add: Let_def)
  qed
qed

lemma rankIndexOf_nth: "i < 44 \<Longrightarrow> rankIndexOf (name (VOID_RANKS ! i)) = int i"
  unfolding rankIndexOf_def
  by (rule findIndex_nth [OF distinct_rank_names]) (simp add: length_VOID_RANKS)

subsection \<open>Rank assignment\<close>

text \<open>The loop returns the entry after the longest prefix of thresholds the balance misses.\<close>

lemma getVoidRank_loop_takeWhile:
  "getVoidRank_loop rs b =
     (let k = length (takeWhile (\<lambda>r. \<not> threshold r \<le> b) rs)
      in if k < length rs then name (rs ! k) else ''VOID Peasant'')"
  by (induction rs) (auto simp: Let_def)

lemma missed_prefix_antimono:
  "b1 \<le> b2 \<Longrightarrow> length (takeWhile (\<lambda>r. \<not> threshold r \<le> (b2::number)) rs)
      \<le> length (takeWhile (\<lambda>r. \<not> threshold r \<le> b1) rs)"
  by (induction rs) auto

lemma rankIndexOf_getVoidRank:
  "rankIndexOf (getVoidRank b) =
     int (min (length (takeWhile (\<lambda>r. \<not> threshold r \<le> b) VOID_RANKS)) 43)"
proof (cases "length (takeWhile (\<lambda>r. \<not> threshold r \<le> b) VOID_RANKS) < 44")
  case True
  then have "getVoidRank b = name (VOID_RANKS ! length (takeWhile (\<lambda>r. \<not> threshold r \<le> b) VOID_RANKS))"
    by (simp add: getVoidRank_def getVoidRank_loop_takeWhile length_VOID_RANKS Let_def)
  with True show ?thesis by (simp add: rankIndexOf_nth)
next
  case False
  then have "getVoidRank b = name (VOID_RANKS ! 43)"
    by (simp add: getVoidRank_def getVoidRank_loop_takeWhile length_VOID_RANKS Let_def last_rank)
  with False show ?thesis by (simp add: rankIndexOf_nth)
qed

lemma getVoidRank_loop_below_all:
  "\<forall>r \<in> set rs. b < threshold r \<Longrightarrow> getVoidRank_loop rs b = ''VOID Peasant''"
  by (induction rs) auto

text \<open>
  Claim C8. Rank assignment is monotone: for balances \<open>b1 < b2\<close> the rank of \<open>b2\<close> stands at
  a table position (0 = highest) no greater than the position of the rank of \<open>b1\<close>, both
  positions being positions of the table; and a balance below every threshold, zero and
  negative balances included, gets the default lowest tier, the last entry of the table.
\<close>

theorem rank_assignment_monotone:
  "(b1 < b2 \<longrightarrow>
      0 \<le> rankIndexOf (getVoidRank b2) \<and>
      rankIndexOf (getVoidRank b2) \<le> rankIndexOf (getVoidRank b1) \<and>
      rankIndexOf (getVoidRank b1) < int (length VOID_RANKS)) \<and>
   ((\<forall>r \<in> set VOID_RANKS. b < threshold r) \<longrightarrow>
      getVoidRank b = ''VOID Peasant'' \<and>
      rankIndexOf (getVoidRank b) = int (length VOID_RANKS) - 1)"
proof (intro conjI impI)
  assume "b1 < b2"
  then show "rankIndexOf (getVoidRank b2) \<le> rankIndexOf (getVoidRank b1)"
    using missed_prefix_antimono [of b1 b2 VOID_RANKS] by (simp add: rankIndexOf_getVoidRank)
next
  show "0 \<le> rankIndexOf (getVoidRank b2)"
    by (simp add: rankIndexOf_getVoidRank)
next
  show "rankIndexOf (getVoidRank b1) < int (length VOID_RANKS)"
    by (simp add: rankIndexOf_getVoidRank length_VOID_RANKS)
next
  assume below: "\<forall>r \<in> set VOID_RANKS. b < threshold r"
  then show peasant: "getVoidRank b = ''VOID Peasant''"
    by (simp add: getVoidRank_def getVoidRank_loop_below_all)
  show "rankIndexOf (getVoidRank b) = int (length VOID_RANKS) - 1"
    using rankIndexOf_nth [of 43] by (simp add: peasant last_rank length_VOID_RANKS)
qed

theorem rank_assignment_monotone_witness:
  "getVoidRank 500 = ''VOID Peasant'' \<and> getVoidRank 2000 = ''VOID Initiate'' \<and>
   rankIndexOf (getVoidRank 2000) \<le> rankIndexOf (getVoidRank 500) \<and>
   getVoidRank 0 = ''VOID Peasant'' \<and> getVoidRank (- 5) = ''VOID Peasant'' \<and>
   rankIndexOf (getVoidRank (- 5)) = 43"
proof -
  have v: "getVoidRank 500 = ''VOID Peasant''" "getVoidRank 2000 = ''VOID Initiate''"
    by (simp_all add: getVoidRank_def VOID_RANKS_def)
  have lt: "(500::number) < 2000" by simp
  have z: "\<forall>r \<in> set VOID_RANKS. 0 < threshold r"
    and n: "\<forall>r \<in> set VOID_RANKS. - 5 < threshold r"
    by (simp_all add: VOID_RANKS_def)
  have m: "rankIndexOf (getVoidRank 2000) \<le> rankIndexOf (getVoidRank 500)"
    using rank_assignment_monotone [of 500 2000 0] lt by blast
  have p0: "getVoidRank 0 = ''VOID Peasant''"
    using rank_assignment_monotone [of 500 2000 0] z by blast
  have p5: "getVoidRank (- 5) = ''VOID Peasant''"
    and i5: "rankIndexOf (getVoidRank (- 5)) = int (length VOID_RANKS) - 1"
    using rank_assignment_monotone [of 500 2000 "- 5"] n by blast+
  from i5 have "rankIndexOf (getVoidRank (- 5)) = 43" by (simp add: length_VOID_RANKS)
  with v m p0 p5 show ?thesis by blast
qed

subsection \<open>Image selection\<close>

lemma imageNum_eq:
  "imageNum i = 2 + Math_round (js_mul (js_sub 1 (js_div (of_int i) 43)) 43)"
  by (simp add: imageNum_def VOID_RANKS_def Let_def)

text \<open>The rounded double arithmetic of the selector, evaluated at each of the 44 positions.\<close>

lemma round_vals_a:
  "Math_round (js_mul (js_sub 1 (js_div 0 43)) 43) = 43 \<and>
   Math_round (js_mul (js_sub 1 (js_div 1 43)) 43) = 42 \<and>
   Math_round (js_mul (js_sub 1 (js_div 2 43)) 43) = 41 \<and>
   Math_round (js_mul (js_sub 1 (js_div 3 43)) 43) = 40 \<and>
   Math_round (js_mul (js_sub 1 (js_div 4 43)) 43) = 39 \<and>
   Math_round (js_mul (js_sub 1 (js_div 5 43)) 43) = 38 \<and>
   Math_round (js_mul (js_sub 1 (js_div 6 43)) 43) = 37 \<and>
   Math_round (js_mul (js_sub 1 (js_div 7 43)) 43) = 36 \<and>
   Math_round (js_mul (js_sub 1 (js_div 8 43)) 43) = 35 \<and>
   Math_round (js_mul (js_sub 1 (js_div 9 43)) 43) = 34 \<and>
   Math_round (js_mul (js_sub 1 (js_div 10 43)) 43) = 33"
  by code_simp

lemma round_vals_b:
  "Math_round (js_mul (js_sub 1 (js_div 11 43)) 43) = 32 \<and>
   Math_round (js_mul (js_sub 1 (js_div 12 43)) 43) = 31 \<and>
   Math_round (js_mul (js_sub 1 (js_div 13 43)) 43) = 30 \<and>
   Math_round (js_mul (js_sub 1 (js_div 14 43)) 43) = 29 \<and>
   Math_round (js_mul (js_sub 1 (js_div 15 43)) 43) = 28 \<and>
   Math_round (js_mul (js_sub 1 (js_div 16 43)) 43) = 27 \<and>
   Math_round (js_mul (js_sub 1 (js_div 17 43)) 43) = 26 \<and>
   Math_round (js_mul (js_sub 1 (js_div 18 43)) 43) = 25 \<and>
   Math_round (js_mul (js_sub 1 (js_div 19 43)) 43) = 24 \<and>
   Math_round (js_mul (js_sub 1 (js_div 20 43)) 43) = 23 \<and>
   Math_round (js_mul (js_sub 1 (js_div 21 43)) 43) = 22"
  by code_simp

lemma round_vals_c:
  "Math_round (js_mul (js_sub 1 (js_div 22 43)) 43) = 21 \<and>
   Math_round (js_mul (js_sub 1 (js_div 23 43)) 43) = 20 \<and>
   Math_round (js_mul (js_sub 1 (js_div 24 43)) 43) = 19 \<and>
   Math_round (js_mul (js_sub 1 (js_div 25 43)) 43) = 18 \<and>
   Math_round (js_mul (js_sub 1 (js_div 26 43)) 43) = 17 \<and>
   Math_round (js_mul (js_sub 1 (js_div 27 43)) 43) = 16 \<and>
   Math_round (js_mul (js_sub 1 (js_div 28 43)) 43) = 15 \<and>
   Math_round (js_mul (js_sub 1 (js_div 29 43)) 43) = 14 \<and>
   Math_round (js_mul (js_sub 1 (js_div 30 43)) 43) = 13 \<and>
   Math_round (js_mul (js_sub 1 (js_div 31 43)) 43) = 12 \<and>
   Math_round (js_mul (js_sub 1 (js_div 32 43)) 43) = 11"
  by code_simp

lemma round_vals_d:
  "Math_round (js_mul (js_sub 1 (js_div 33 43)) 43) = 10 \<and>
   Math_round (js_mul (js_sub 1 (js_div 34 43)) 43) = 9 \<and>
   Math_round (js_mul (js_sub 1 (js_div 35 43)) 43) = 8 \<and>
   Math_round (js_mul (js_sub 1 (js_div 36 43)) 43) = 7 \<and>
   Math_round (js_mul (js_sub 1 (js_div 37 43)) 43) = 6 \<and>
   Math_round (js_mul (js_sub 1 (js_div 38 43)) 43) = 5 \<and>
   Math_round (js_mul (js_sub 1 (js_div 39 43)) 43) = 4 \<and>
   Math_round (js_mul (js_sub 1 (js_div 40 43)) 43) = 3 \<and>
   Math_round (js_mul (js_sub 1 (js_div 41 43)) 43) = 2 \<and>
   Math_round (js_mul (js_sub 1 (js_div 42 43)) 43) = 1 \<and>
   Math_round (js_mul (js_sub 1 (js_div 43 43)) 43) = 0"
  by code_simp

lemma round_vals:
  "list_all (\<lambda>i. Math_round (js_mul (js_sub 1 (js_div (of_int i) 43)) 43) = 43 - i)
     [0, 1, 2, 3, 4, 5, 6, 7, 8, 9, 10, 11, 12, 13, 14, 15, 16, 17, 18, 19, 20, 21, 22, 23, 24, 25, 26, 27, 28, 29, 30, 31, 32, 33, 34, 35, 36, 37, 38, 39, 40, 41, 42, 43]"
  using round_vals_a round_vals_b round_vals_c round_vals_d by simp

lemma positions: "[0..43] = [0, 1, 2, 3, 4, 5, 6, 7, 8, 9, 10, 11, 12, 13, 14, 15, 16, 17, 18, 19, 20, 21, 22, 23, 24, 25, 26, 27, 28, 29, 30, 31, 32, 33, 34, 35, 36, 37, 38, 39, 40, 41, 42, 43]"
  by code_simp

lemma imageNum_nth:
  assumes "i < 44"
  shows "imageNum (int i) = 45 - int i"
proof -
  have "list_all (\<lambda>j. Math_round (js_mul (js_sub 1 (js_div (of_int j) 43)) 43) = 43 - j) [0..43]"
    unfolding positions by (rule round_vals)
  then have all: "\<forall>j \<in> set [0..43]. Math_round (js_mul (js_sub 1 (js_div (of_int j) 43)) 43) = 43 - j"
    by (simp only: list_all_iff)
  from assms have "int i \<in> set [0..43]" by simp
  then have "Math_round (js_mul (js_sub 1 (js_div (of_int (int i)) 43)) 43) = 43 - int i"
    by (rule all [rule_format])
  then show ?thesis by (simp add: imageNum_eq)
qed

text \<open>
  Claim C9. For the rank name at position \<open>i\<close> of the 44-entry table (0 = highest), the
  image selector \<open>2 + round(normalized * 43)\<close>, computed in double arithmetic, is exactly
  \<open>45 - i\<close>: image 45 for the highest rank, image 2 for the lowest, a different integer of
  \<open>2..45\<close> for every rank.
\<close>

theorem image_selector_exact:
  "length VOID_RANKS = 44 \<and>
   (\<forall>i < 44. rankIndexOf (name (VOID_RANKS ! i)) = int i \<and>
      imageNum (rankIndexOf (name (VOID_RANKS ! i))) = 45 - int i \<and>
      getRankImageUrl (name (VOID_RANKS ! i)) =
        ''https://voidsolana.com/ranks/rank'' @ show_int (45 - int i) @ ''.png'') \<and>
   distinct (map (\<lambda>r. imageNum (rankIndexOf (name r))) VOID_RANKS)"
proof (intro conjI allI impI)
  show "length VOID_RANKS = 44" by (rule length_VOID_RANKS)
next
  fix i :: nat assume "i < 44"
  then show "rankIndexOf (name (VOID_RANKS ! i)) = int i" by (rule rankIndexOf_nth)
next
  fix i :: nat assume "i < 44"
  then show "imageNum (rankIndexOf (name (VOID_RANKS ! i))) = 45 - int i"
    by (simp add: rankIndexOf_nth imageNum_nth)
next
  fix i :: nat assume i: "i < 44"
  then have "rankIndexOf (name (VOID_RANKS ! i)) \<noteq> - 1" by (simp add: rankIndexOf_nth)
  with i show "getRankImageUrl (name (VOID_RANKS ! i)) =
      ''https://voidsolana.com/ranks/rank'' @ show_int (45 - int i) @ ''.png''"
    by (simp add: getRankImageUrl_def Let_def rankIndexOf_nth imageNum_nth)
next
  have "inj_on (\<lambda>r. imageNum (rankIndexOf (name r))) (set VOID_RANKS)"
  proof (rule inj_onI)
    fix x y
    assume "x \<in> set VOID_RANKS" and "y \<in> set VOID_RANKS"
      and eq: "imageNum (rankIndexOf (name x)) = imageNum (rankIndexOf (name y))"
    then obtain i j where ij: "i < 44" "x = VOID_RANKS ! i" "j < 44" "y = VOID_RANKS ! j"
      by (auto simp: in_set_conv_nth length_VOID_RANKS)
    with eq have "45 - int i = 45 - int j" by (simp add: rankIndexOf_nth imageNum_nth)
    with ij show "x = y" by simp
  qed
  moreover have "distinct VOID_RANKS"
    using distinct_rank_names by (simp only: distinct_map)
  ultimately show "distinct (map (\<lambda>r. imageNum (rankIndexOf (name r))) VOID_RANKS)"
    by (simp only: distinct_map)
qed

theorem image_selector_exact_witness:
  "getRankImageUrl ''VOID Ultimate'' = ''https://voidsolana.com/ranks/rank45.png'' \<and>
   getRankImageUrl ''VOID Peasant'' = ''https://voidsolana.com/ranks/rank2.png'' \<and>
   imageNum (rankIndexOf ''VOID Lord'') = 23"
proof -
  note sel = image_selector_exact [THEN conjunct2, THEN conjunct1, rule_format]
  have u: "name (VOID_RANKS ! 0) = ''VOID Ultimate''"
    and p: "name (VOID_RANKS ! 43) = ''VOID Peasant''"
    and l: "name (VOID_RANKS ! 22) = ''VOID Lord''"
    by (simp_all add: VOID_RANKS_def)
  have s45: "show_int 45 = ''45''" and s2: "show_int 2 = ''2''"
    by (simp_all add: show_int_def show_nat.simps [of 45] show_nat.simps [of 4]
        show_nat.simps [of 2] digit_char_def)
  have "getRankImageUrl ''VOID Ultimate'' = ''https://voidsolana.com/ranks/rank45.png''"
    using sel [of 0] by (simp add: u s45)
  moreover have "getRankImageUrl ''VOID Peasant'' = ''https://voidsolana.com/ranks/rank2.png''"
    using sel [of 43] by (simp add: p s2)
  moreover have "imageNum (rankIndexOf ''VOID Lord'') = 23"
  proof -
    have "(22::nat) < 44" by simp
    then have "imageNum (rankIndexOf (name (VOID_RANKS ! 22))) = 45 - int 22"
      by (rule sel [THEN conjunct2, THEN conjunct1])
    then show ?thesis by (simp add: l)
  qed
  ultimately show ?thesis by simp
qed

section \<open>Properties of the poll loop\<close>

lemma rateLimited_doubles: "nextBackoff rateLimited backoff = min (backoff * 2) 60000"
  by (simp add: nextBackoff_def rateLimited_def)

lemma extraBackoff_nonneg: "0 \<le> extraBackoff backoff"
  by (simp add: extraBackoff_def)

lemma backoffAfter_snoc:
  "backoffAfter (outcomes @ [outcome]) = nextBackoff outcome (backoffAfter outcomes)"
  by (simp add: backoffAfter_def)

lemma backoffAfter_rateLimited:
  "backoffAfter (replicate n rateLimited) = min (1000 * 2 ^ n) 60000"
proof (induction n)
  case 0
  show ?case by (simp add: backoffAfter_def initialBackoff_def)
next
  case (Suc n)
  have "replicate (Suc n) rateLimited = replicate n rateLimited @ [rateLimited]"
    by (simp add: replicate_append_same)
  then have "backoffAfter (replicate (Suc n) rateLimited) =
      min (min (1000 * 2 ^ n) 60000 * 2) 60000"
    by (simp only: backoffAfter_snoc Suc.IH rateLimited_doubles)
  also have "\<dots> = min (1000 * 2 ^ Suc n) 60000"
    by (simp add: min_def)
  finally show ?case .
qed

text \<open>Every backoff the loop reaches lies between one second and the cap.\<close>

lemma backoffAfter_in_range:
  "1000 \<le> backoffAfter outcomes \<and> backoffAfter outcomes \<le> 60000"
proof (induction outcomes rule: rev_induct)
  case Nil
  show ?case by (simp add: backoffAfter_def initialBackoff_def)
next
  case (snoc outcome outcomes)
  then show ?case
    by (cases outcome) (auto simp: backoffAfter_snoc nextBackoff_def)
qed

text \<open>
  Claim C7. The backoff counter starts at one second; a rate-limited (429) cycle doubles it
  up to the cap of sixty seconds, and the extra delay of the next cycle is then the new
  backoff; a successful cycle resets it to one second; the next cycle is always scheduled
  after \<open>max(0, baseline - elapsed) + extraBackoff\<close>, which is never less than the delay
  of a cycle without backoff.
\<close>

theorem poll_backoff_schedule:
  "initialBackoff = 1000 \<and>
   fst (pollLoop cfg rateLimited elapsed backoff) = min (backoff * 2) 60000 \<and>
   backoffAfter (replicate n rateLimited) = min (1000 * 2 ^ n) 60000 \<and>
   (1000 \<le> backoff \<longrightarrow>
      snd (pollLoop cfg rateLimited elapsed backoff) =
        max 0 (BASE_INTERVAL cfg - elapsed) + fst (pollLoop cfg rateLimited elapsed backoff)) \<and>
   pollLoop cfg Returned elapsed backoff = (1000, max 0 (BASE_INTERVAL cfg - elapsed)) \<and>
   snd (pollLoop cfg outcome elapsed backoff) =
     max 0 (BASE_INTERVAL cfg - elapsed) + extraBackoff (fst (pollLoop cfg outcome elapsed backoff)) \<and>
   snd (pollLoop cfg Returned elapsed backoff) \<le> snd (pollLoop cfg outcome elapsed backoff)"
proof (intro conjI impI)
  show "initialBackoff = 1000" by (simp add: initialBackoff_def)
  show "fst (pollLoop cfg rateLimited elapsed backoff) = min (backoff * 2) 60000"
    by (simp add: pollLoop_def Let_def rateLimited_doubles)
  show "backoffAfter (replicate n rateLimited) = min (1000 * 2 ^ n) 60000"
    by (rule backoffAfter_rateLimited)
  show "pollLoop cfg Returned elapsed backoff = (1000, max 0 (BASE_INTERVAL cfg - elapsed))"
    by (simp add: pollLoop_def Let_def nextBackoff_def extraBackoff_def)
  show "snd (pollLoop cfg outcome elapsed backoff) =
     max 0 (BASE_INTERVAL cfg - elapsed) + extraBackoff (fst (pollLoop cfg outcome elapsed backoff))"
    by (simp add: pollLoop_def Let_def)
  show "snd (pollLoop cfg Returned elapsed backoff) \<le> snd (pollLoop cfg outcome elapsed backoff)"
    by (simp add: pollLoop_def Let_def nextBackoff_def extraBackoff_def)
next
  assume "1000 \<le> backoff"
  then show "snd (pollLoop cfg rateLimited elapsed backoff) =
      max 0 (BASE_INTERVAL cfg - elapsed) + fst (pollLoop cfg rateLimited elapsed backoff)"
    by (simp add: pollLoop_def Let_def rateLimited_doubles extraBackoff_def)
qed

theorem poll_backoff_schedule_witness:
  "pollLoop defaultConfig rateLimited 1200 1000 = (2000, 30800) \<and>
   pollLoop defaultConfig rateLimited 1200 32000 = (60000, 88800) \<and>
   pollLoop defaultConfig Returned 1200 32000 = (1000, 28800) \<and>
   backoffAfter (replicate 6 rateLimited) = 60000"
proof -
  have b: "(1000::int) \<le> 1000" and c: "(1000::int) \<le> 32000" by simp_all
  have base: "BASE_INTERVAL defaultConfig = 30000" by (simp add: defaultConfig_def)
  note t1 = poll_backoff_schedule
    [where cfg = defaultConfig and elapsed = 1200 and backoff = 1000 and n = 6 and outcome = Returned]
  note t2 = poll_backoff_schedule
    [where cfg = defaultConfig and elapsed = 1200 and backoff = 32000 and n = 6 and outcome = Returned]
  have f1: "fst (pollLoop defaultConfig rateLimited 1200 1000) = min (1000 * 2) 60000"
    and s1: "snd (pollLoop defaultConfig rateLimited 1200 1000) =
      max 0 (BASE_INTERVAL defaultConfig - 1200) + fst (pollLoop defaultConfig rateLimited 1200 1000)"
    and n6: "backoffAfter (replicate 6 rateLimited) = min (1000 * 2 ^ 6) 60000"
    using t1 b by blast+
  have f2: "fst (pollLoop defaultConfig rateLimited 1200 32000) = min (32000 * 2) 60000"
    and s2: "snd (pollLoop defaultConfig rateLimited 1200 32000) =
      max 0 (BASE_INTERVAL defaultConfig - 1200) + fst (pollLoop defaultConfig rateLimited 1200 32000)"
    and r2: "pollLoop defaultConfig Returned 1200 32000 =
      (1000, max 0 (BASE_INTERVAL defaultConfig - 1200))"
    using t2 c by blast+
  have "pollLoop defaultConfig rateLimited 1200 1000 = (2000, 30800)"
    by (simp add: prod_eq_iff f1 s1 base)
  moreover have "pollLoop defaultConfig rateLimited 1200 32000 = (60000, 88800)"
    by (simp add: prod_eq_iff f2 s2 base)
  moreover have "pollLoop defaultConfig Returned 1200 32000 = (1000, 28800)"
    by (simp add: r2 base)
  moreover have "backoffAfter (replicate 6 rateLimited) = 60000"
    by (simp add: n6)
  ultimately show ?thesis by blast
qed

section \<open>Properties of the price cache\<close>

lemma fetchPrice_counts: "fetches (snd (fetchPrice resp captured st)) = fetches st + 1"
  by (cases resp) (simp_all add: fetchPrice_def)

lemma fetchPrice_result:
  "fst (fetchPrice resp captured st) =
     (case resp of Pair u s \<Rightarrow> Some \<lparr>usd = u, solPrice = s\<rparr> | _ \<Rightarrow> None)"
  by (cases resp) (simp_all add: fetchPrice_def)

lemma fetchPrice_snapshot:
  "fetchPrice resp captured st = (Some r, st') \<Longrightarrow> cachedPrice st' = Some c \<Longrightarrow>
     r = \<lparr>usd = usd c, solPrice = solPrice c\<rparr>"
  by (cases resp) (auto simp: fetchPrice_def)

lemma getVoidPrice_fresh:
  "cachedPrice st = Some c \<Longrightarrow> now - ts c < 30000 \<Longrightarrow>
     getVoidPrice now resp captured st = (Some \<lparr>usd = usd c, solPrice = solPrice c\<rparr>, st)"
  by (simp add: getVoidPrice_def)

lemma getVoidPrice_expired:
  "cachedPrice st = Some c \<Longrightarrow> 30000 \<le> now - ts c \<Longrightarrow>
     getVoidPrice now resp captured st = fetchPrice resp captured st"
  by (simp add: getVoidPrice_def)

lemma getVoidPrice_snapshot:
  assumes "getVoidPrice now resp captured st = (Some r, st')" and "cachedPrice st' = Some c"
  shows "r = \<lparr>usd = usd c, solPrice = solPrice c\<rparr>"
proof (cases "cachedPrice st")
  case None
  with assms show ?thesis by (simp add: getVoidPrice_def fetchPrice_snapshot)
next
  case (Some c0)
  show ?thesis
  proof (cases "now - ts c0 < 30000")
    case True
    with Some assms show ?thesis by (simp add: getVoidPrice_def)
  next
    case False
    with Some assms show ?thesis by (simp add: getVoidPrice_def fetchPrice_snapshot)
  qed
qed

text \<open>
  Claim C6. Of two calls of \<open>getPrice\<close>, when the second comes less than 30 seconds after
  the snapshot held after the first was captured, the second returns the cached values, the
  same the first returned, and makes no request; a call made when the snapshot is 30 seconds
  old or older makes exactly one request, and its answer is that of the request alone,
  whatever the stale snapshot holds.
\<close>

theorem price_cache_freshness:
  "(getVoidPrice now1 resp1 captured1 st0 = (r1, st1) \<and> cachedPrice st1 = Some c \<and>
      now2 - ts c < 30000 \<longrightarrow>
        getVoidPrice now2 resp2 captured2 st1 = (Some \<lparr>usd = usd c, solPrice = solPrice c\<rparr>, st1) \<and>
        (r1 \<noteq> None \<longrightarrow> r1 = Some \<lparr>usd = usd c, solPrice = solPrice c\<rparr>)) \<and>
   (cachedPrice st = Some c \<and> 30000 \<le> now - ts c \<longrightarrow>
        fetches (snd (getVoidPrice now resp captured st)) = fetches st + 1 \<and>
        fst (getVoidPrice now resp captured st) =
          (case resp of Pair u s \<Rightarrow> Some \<lparr>usd = u, solPrice = s\<rparr> | _ \<Rightarrow> None))"
proof (intro conjI impI)
  assume a: "getVoidPrice now1 resp1 captured1 st0 = (r1, st1) \<and> cachedPrice st1 = Some c \<and>
      now2 - ts c < 30000"
  then show "getVoidPrice now2 resp2 captured2 st1 =
      (Some \<lparr>usd = usd c, solPrice = solPrice c\<rparr>, st1)"
    by (simp add: getVoidPrice_fresh)
  assume "r1 \<noteq> None"
  then obtain r where "r1 = Some r" by auto
  with a show "r1 = Some \<lparr>usd = usd c, solPrice = solPrice c\<rparr>"
    using getVoidPrice_snapshot [of now1 resp1 captured1 st0 r st1 c] by simp
next
  assume a: "cachedPrice st = Some c \<and> 30000 \<le> now - ts c"
  then show "fetches (snd (getVoidPrice now resp captured st)) = fetches st + 1"
    by (simp add: getVoidPrice_expired fetchPrice_counts)
  from a show "fst (getVoidPrice now resp captured st) =
      (case resp of Pair u s \<Rightarrow> Some \<lparr>usd = u, solPrice = s\<rparr> | _ \<Rightarrow> None)"
    by (simp add: getVoidPrice_expired fetchPrice_result)
qed

theorem price_cache_freshness_witness:
  "getVoidPrice 1000 (Pair 2 3) 1500 \<lparr>cachedPrice = None, fetches = 0\<rparr> =
     (Some \<lparr>usd = 2, solPrice = 3\<rparr>,
      \<lparr>cachedPrice = Some \<lparr>usd = 2, solPrice = 3, ts = 1500\<rparr>, fetches = 1\<rparr>) \<and>
   getVoidPrice 31499 (Pair 5 7) 31600
       \<lparr>cachedPrice = Some \<lparr>usd = 2, solPrice = 3, ts = 1500\<rparr>, fetches = 1\<rparr> =
     (Some \<lparr>usd = 2, solPrice = 3\<rparr>,
      \<lparr>cachedPrice = Some \<lparr>usd = 2, solPrice = 3, ts = 1500\<rparr>, fetches = 1\<rparr>) \<and>
   fetches (snd (getVoidPrice 31500 FetchThrows 31600
       \<lparr>cachedPrice = Some \<lparr>usd = 2, solPrice = 3, ts = 1500\<rparr>, fetches = 1\<rparr>)) = 2 \<and>
   fst (getVoidPrice 31500 FetchThrows 31600
       \<lparr>cachedPrice = Some \<lparr>usd = 2, solPrice = 3, ts = 1500\<rparr>, fetches = 1\<rparr>) = None"
proof -
  let ?st0 = "\<lparr>cachedPrice = None, fetches = 0\<rparr>"
  let ?c = "\<lparr>usd = 2, solPrice = 3, ts = 1500\<rparr>"
  let ?st1 = "\<lparr>cachedPrice = Some ?c, fetches = 1\<rparr>"
  have first: "getVoidPrice 1000 (Pair 2 3) 1500 ?st0 = (Some \<lparr>usd = 2, solPrice = 3\<rparr>, ?st1)"
    by (simp add: getVoidPrice_def fetchPrice_def)
  have snap: "cachedPrice ?st1 = Some ?c" by simp
  have young: "(31499::int) - ts ?c < 30000" and old: "(30000::int) \<le> 31500 - ts ?c" by simp_all
  note t = price_cache_freshness
    [where ?now1.0 = 1000 and ?resp1.0 = "Pair 2 3" and ?captured1.0 = 1500 and ?st0.0 = ?st0 and st = ?st1
       and ?r1.0 = "Some \<lparr>usd = 2, solPrice = 3\<rparr>" and ?st1.0 = ?st1 and c = ?c
       and ?now2.0 = 31499 and ?resp2.0 = "Pair 5 7" and ?captured2.0 = 31600
       and now = 31500 and resp = FetchThrows and captured = 31600]
  have "getVoidPrice 31499 (Pair 5 7) 31600 ?st1 = (Some \<lparr>usd = 2, solPrice = 3\<rparr>, ?st1)"
    using t first snap young by simp
  moreover have "fetches (snd (getVoidPrice 31500 FetchThrows 31600 ?st1)) = 2"
    and "fst (getVoidPrice 31500 FetchThrows 31600 ?st1) = None"
    using t snap old by simp_all
  ultimately show ?thesis using first by blast
qed

section \<open>Properties of the delivery queue\<close>

lemma processQueue_takes_head:
  "\<not> isSending s \<Longrightarrow> messageQueue s = msg # rest \<Longrightarrow>
     processQueue tg s = deliver tg msg (s\<lparr>isSending := True, messageQueue := rest\<rparr>)"
  by (simp add: processQueue_def)

lemma sendFallback_queue:
  "messageQueue (sendFallback tg msg s) = messageQueue s \<and> isSending (sendFallback tg msg s) = isSending s"
  by (simp add: sendFallback_def Let_def)

lemma deliver_queue:
  "messageQueue (deliver tg msg s) = messageQueue s \<and> isSending (deliver tg msg s) = isSending s"
  by (simp add: deliver_def Let_def sendFallback_queue)

text \<open>
  What holds of one delivery attempt: when the photo is rejected, the text fallback decides
  whether one message or none reaches the channel; the queue loses its head either way, and
  the timer callback goes on with the next item.
\<close>

lemma delivery_fallback:
  assumes "\<not> isSending s" and "messageQueue s = msg # rest" and "\<not> sendPhotoOk tg"
  shows "channel (processQueue tg s) =
           (if sendMessageOk tg then channel s @ [TextMessage (caption msg)] else channel s)"
    and "messageQueue (processQueue tg s) = rest"
    and "onTimer tg' (processQueue tg s) =
           processQueue tg' ((processQueue tg s)\<lparr>isSending := False\<rparr>)"
  using assms
  by (simp_all add: processQueue_takes_head deliver_def sendFallback_def Let_def onTimer_def)

lemma delivery_without_pin_failure:
  assumes "\<not> isSending s" and "messageQueue s = msg # rest"
    and "wantsPin msg \<longrightarrow> \<not> sendPhotoOk tg \<or> pinAfterPhotoOk tg"
  shows "length (channel (processQueue tg s)) \<le> length (channel s) + 1"
  using assms
  by (auto simp: processQueue_takes_head deliver_def sendFallback_def Let_def)

text \<open>
  A rejected pin after a delivered photo is raised inside the same \<^verbatim>\<open>try\<close> block as the
  photo, so the \<^verbatim>\<open>catch\<close> block runs and sends the caption again as text.
\<close>

lemma pin_failure_falls_back:
  assumes "\<not> isSending s" and "messageQueue s = msg # rest" and "wantsPin msg"
    and "sendPhotoOk tg" and "\<not> pinAfterPhotoOk tg" and "sendMessageOk tg"
  shows "channel (processQueue tg s) =
           channel s @ [PhotoMessage (photo msg) (caption msg), TextMessage (caption msg)]"
  using assms
  by (simp add: processQueue_takes_head deliver_def sendFallback_def Let_def)

text \<open>
  Claim C1. One delivery attempt lets at most one message reach the channel; in particular
  a rejected pin after a delivered photo is only logged and causes no fallback send.
  The code does otherwise: in a chat where the bot may post but not pin, the attempt for a
  pin-flagged notification delivers the photo and then the same caption as a text message,
  and writes the line for a failed photo to the log.
\<close>

theorem pin_failure_sends_twice:
  "channel (processQueue pinRejected (idleWith [burnNotice])) =
     [PhotoMessage (photo burnNotice) (caption burnNotice), TextMessage (caption burnNotice)] \<and>
   journal (processQueue pinRejected (idleWith [burnNotice])) =
     [FailedToSendPhoto, FailedToSendFallbackText] \<and>
   pinned (processQueue pinRejected (idleWith [burnNotice])) = []"
  by (simp add: processQueue_def deliver_def sendFallback_def Let_def idleWith_def
      pinRejected_def wantsPin_def burnNotice_def)

section \<open>Properties of the dedup window\<close>

lemma markProcessed_seen: "sig \<in> set w \<Longrightarrow> markProcessed sig w = (False, w)"
  by (simp add: markProcessed_def)

lemma markProcessed_new:
  assumes "sig \<notin> set w" and "[] \<notin> set w" and "length w \<le> MAX_PROCESSED"
  shows "markProcessed sig w = (True, drop (length w + 1 - MAX_PROCESSED) (w @ [sig]))"
proof (cases "MAX_PROCESSED \<le> length w")
  case False
  with assms show ?thesis by (simp add: markProcessed_def)
next
  case True
  with assms have full: "length w = MAX_PROCESSED" by simp
  then have "w \<noteq> []" by (auto simp: MAX_PROCESSED_def)
  then obtain first rest where w: "w = first # rest" by (cases w) auto
  with assms have "first \<noteq> []" by auto
  with assms full w show ?thesis by (simp add: markProcessed_def)
qed

lemma markProcessed_oldest_empty:
  "sig \<notin> set w \<Longrightarrow> w = [] # rest \<Longrightarrow> markProcessed sig w = (True, w @ [sig])"
  by (simp add: markProcessed_def)

lemma markAll_Cons: "markAll (sig # sigs) w = markAll sigs (snd (markProcessed sig w))"
  by (simp add: markAll_def)

text \<open>The invariant of the window when no empty signature is ever presented.\<close>

lemma markProcessed_invariant:
  assumes "sig \<noteq> []" and "length w \<le> MAX_PROCESSED" and "distinct w" and "[] \<notin> set w"
  shows "length (snd (markProcessed sig w)) \<le> MAX_PROCESSED \<and>
         distinct (snd (markProcessed sig w)) \<and> [] \<notin> set (snd (markProcessed sig w))"
proof (cases "sig \<in> set w")
  case True
  with assms show ?thesis by (simp add: markProcessed_seen)
next
  case False
  let ?w' = "drop (length w + 1 - MAX_PROCESSED) (w @ [sig])"
  have res: "snd (markProcessed sig w) = ?w'"
    using False assms by (simp add: markProcessed_new)
  have "set ?w' \<subseteq> set (w @ [sig])" by (rule set_drop_subset)
  then have "[] \<notin> set ?w'" using assms by auto
  moreover have "distinct (w @ [sig])" using False assms by simp
  then have "distinct ?w'" by (rule distinct_drop)
  moreover have "length ?w' \<le> MAX_PROCESSED"
    using assms by (simp del: drop_append)
  ultimately show ?thesis unfolding res by blast
qed

lemma markAll_invariant:
  "[] \<notin> set ops \<Longrightarrow> length w \<le> MAX_PROCESSED \<Longrightarrow> distinct w \<Longrightarrow> [] \<notin> set w \<Longrightarrow>
     length (markAll ops w) \<le> MAX_PROCESSED \<and> distinct (markAll ops w) \<and> [] \<notin> set (markAll ops w)"
proof (induction ops arbitrary: w)
  case Nil
  then show ?case by (simp add: markAll_def)
next
  case (Cons sig ops)
  then have "sig \<noteq> []" and "[] \<notin> set ops" by auto
  with Cons.prems Cons.IH [of "snd (markProcessed sig w)"] markProcessed_invariant [of sig w]
  show ?case by (simp add: markAll_Cons)
qed

lemma drop_append_short: "k \<le> length xs \<Longrightarrow> drop k xs @ ys = drop k (xs @ ys)"
  by simp

lemma drop_window:
  assumes "k \<le> length xs - m"
  shows "drop (length (drop k xs) - m) (drop k xs) = drop (length xs - m) xs"
proof -
  from assms have "length xs - k - m + k = length xs - m" by arith
  then show ?thesis by (simp only: drop_drop length_drop)
qed

text \<open>Strict FIFO: after new, pairwise different signatures the window holds the most recent ones.\<close>

lemma markAll_fifo:
  "distinct (w @ sigs) \<Longrightarrow> [] \<notin> set (w @ sigs) \<Longrightarrow> length w \<le> MAX_PROCESSED \<Longrightarrow>
     markAll sigs w = drop (length (w @ sigs) - MAX_PROCESSED) (w @ sigs)"
proof (induction sigs arbitrary: w)
  case Nil
  then show ?case by (simp add: markAll_def)
next
  case (Cons sig sigs)
  define k where "k = length w + 1 - MAX_PROCESSED"
  define all where "all = w @ sig # sigs"
  define w' where "w' = drop k (w @ [sig])"
  from Cons.prems have new: "sig \<notin> set w" and ne: "[] \<notin> set w" by auto
  then have step: "snd (markProcessed sig w) = w'"
    using Cons.prems by (simp add: markProcessed_new w'_def k_def)
  have "k \<le> length (w @ [sig])" by (simp add: k_def)
  then have "w' @ sigs = drop k ((w @ [sig]) @ sigs)"
    unfolding w'_def by (rule drop_append_short)
  then have app: "w' @ sigs = drop k all" by (simp add: all_def)
  have d: "distinct (w' @ sigs)"
    unfolding app all_def using Cons.prems by (intro distinct_drop) simp
  have "set (w' @ sigs) \<subseteq> set all"
    unfolding app by (rule set_drop_subset)
  with Cons.prems have e: "[] \<notin> set (w' @ sigs)" by (auto simp: all_def)
  have l: "length w' \<le> MAX_PROCESSED"
    using Cons.prems by (simp add: w'_def k_def del: drop_append)
  have kk: "k \<le> length all - MAX_PROCESSED" by (simp add: k_def all_def)
  have "markAll (sig # sigs) w = markAll sigs w'" by (simp add: markAll_Cons step)
  also have "\<dots> = drop (length (w' @ sigs) - MAX_PROCESSED) (w' @ sigs)"
    using d e l by (rule Cons.IH)
  also have "\<dots> = drop (length all - MAX_PROCESSED) all"
    unfolding app using kk by (rule drop_window)
  finally show ?case by (simp only: all_def)
qed

text \<open>With the empty signature as its oldest entry the window only grows.\<close>

lemma markAll_oldest_empty:
  "distinct (([] # rest) @ sigs) \<Longrightarrow> markAll sigs ([] # rest) = ([] # rest) @ sigs"
proof (induction sigs arbitrary: rest)
  case Nil
  then show ?case by (simp add: markAll_def)
next
  case (Cons sig sigs)
  then have "sig \<notin> set ([] # rest)" by auto
  then have "snd (markProcessed sig ([] # rest)) = [] # (rest @ [sig])"
    by (simp add: markProcessed_oldest_empty)
  moreover have "distinct (([] # (rest @ [sig])) @ sigs)" using Cons.prems by auto
  ultimately show ?case using Cons.IH [of "rest @ [sig]"] by (simp add: markAll_Cons)
qed

lemma sigOf_inj: "sigOf m = sigOf n \<Longrightarrow> m = n"
  by (metis length_replicate sigOf_def)

lemma distinct_sigRun: "distinct (sigRun i j)"
  by (auto simp: sigRun_def distinct_map inj_on_def dest: sigOf_inj)

lemma length_sigRun: "length (sigRun i j) = j - i"
  by (simp add: sigRun_def)

lemma sigRun_nonempty: "0 < i \<Longrightarrow> [] \<notin> set (sigRun i j)"
  by (auto simp: sigRun_def sigOf_def)

lemma sigRun_Cons: "i < j \<Longrightarrow> sigRun i j = sigOf i # sigRun (i + 1) j"
  by (simp add: sigRun_def upt_conv_Cons)

text \<open>
  The guard \<^verbatim>\<open>if (first)\<close> is a truthiness test, so the empty string, which is no ledger
  signature, would escape eviction: after 2001 pairwise different strings, the first of them
  empty, the window would hold all 2001.
\<close>

lemma dedup_window_overflow:
  "distinct (sigRun 0 2001) \<and> length (sigRun 0 2001) = 2001 \<and>
   length (markAll (sigRun 0 2001) []) = 2001 \<and>
   hd (sigRun 0 2001) \<in> set (markAll (sigRun 0 2001) []) \<and>
   fst (markProcessed (hd (sigRun 0 2001)) (markAll (sigRun 0 2001) [])) = False"
proof -
  have c: "sigRun 0 2001 = [] # sigRun 1 2001"
    using sigRun_Cons [of 0 2001] by (simp add: sigOf_def)
  have "markAll (sigRun 0 2001) [] = markAll (sigRun 1 2001) [[]]"
    by (simp add: c markAll_Cons markProcessed_def MAX_PROCESSED_def)
  also have "\<dots> = [[]] @ sigRun 1 2001"
    using distinct_sigRun [of 0 2001] by (intro markAll_oldest_empty) (simp add: c)
  finally have w: "markAll (sigRun 0 2001) [] = sigRun 0 2001" by (simp add: c)
  have "length (sigRun 0 2001) = 2001" by (simp add: length_sigRun)
  moreover have "hd (sigRun 0 2001) \<in> set (sigRun 0 2001)" by (simp add: c)
  ultimately show ?thesis
    by (simp add: w distinct_sigRun markProcessed_seen)
qed

text \<open>
  Claim C3. Signatures are the non-empty strings the ledger returns. The window holds at
  most 2000 signatures after every operation, and eviction is strict FIFO by insertion
  order: after 2001 pairwise different signatures the window is the 2000 most recent in
  insertion order, the first-inserted is gone and is unseen when presented again, and each of
  the 2000 most recent is seen. Presenting a signature of the window returns false and
  leaves the window, order included, as it was.
\<close>

theorem dedup_window_fifo:
  "([] \<notin> set ops \<longrightarrow> length (markAll ops []) \<le> 2000) \<and>
   (distinct sigs \<and> [] \<notin> set sigs \<and> length sigs = 2001 \<longrightarrow>
      markAll sigs [] = tl sigs \<and>
      hd sigs \<notin> set (markAll sigs []) \<and>
      fst (markProcessed (hd sigs) (markAll sigs [])) \<and>
      (\<forall>s \<in> set (tl sigs). markProcessed s (markAll sigs []) = (False, markAll sigs []))) \<and>
   (sig \<in> set w \<longrightarrow> markProcessed sig w = (False, w))"
proof (intro conjI impI)
  assume "[] \<notin> set ops"
  then show "length (markAll ops []) \<le> 2000"
    using markAll_invariant [of ops "[]"] by (simp add: MAX_PROCESSED_def)
next
  assume "sig \<in> set w"
  then show "markProcessed sig w = (False, w)" by (rule markProcessed_seen)
next
  assume a: "distinct sigs \<and> [] \<notin> set sigs \<and> length sigs = 2001"
  then obtain first rest where s: "sigs = first # rest" by (cases sigs) auto
  from a have "markAll sigs [] = drop (length ([] @ sigs) - MAX_PROCESSED) ([] @ sigs)"
    by (intro markAll_fifo) simp_all
  with a show w: "markAll sigs [] = tl sigs" by (simp add: MAX_PROCESSED_def s)
  show gone: "hd sigs \<notin> set (markAll sigs [])" unfolding w using a by (simp add: s)
  then show "fst (markProcessed (hd sigs) (markAll sigs []))"
    by (simp add: markProcessed_def)
  show "\<forall>s \<in> set (tl sigs). markProcessed s (markAll sigs []) = (False, markAll sigs [])"
    by (simp add: w markProcessed_seen)
qed

theorem dedup_window_fifo_witness:
  "length (sigRun 1 2002) = 2001 \<and>
   markAll (sigRun 1 2002) [] = sigRun 2 2002 \<and>
   length (markAll (sigRun 1 2002) []) = 2000 \<and>
   fst (markProcessed (sigOf 1) (markAll (sigRun 1 2002) [])) \<and>
   markProcessed (sigOf 2001) (markAll (sigRun 1 2002) []) = (False, markAll (sigRun 1 2002) [])"
proof -
  have len: "length (sigRun 1 2002) = 2001" by (simp add: length_sigRun)
  have "(1::nat) < 2002" and two: "(1::nat) + 1 = 2" by simp_all
  then have "sigRun 1 2002 = sigOf 1 # sigRun (1 + 1) 2002" by (intro sigRun_Cons)
  then have c: "sigRun 1 2002 = sigOf 1 # sigRun 2 2002" by (simp only: two)
  have pre: "distinct (sigRun 1 2002) \<and> [] \<notin> set (sigRun 1 2002) \<and> length (sigRun 1 2002) = 2001"
    by (simp add: distinct_sigRun sigRun_nonempty length_sigRun)
  have "sigOf 2001 \<in> sigOf ` {2..<2002}" by (rule imageI) simp
  then have "sigOf 2001 \<in> set (sigRun 2 2002)" by (simp add: sigRun_def)
  then have last: "sigOf 2001 \<in> set (tl (sigRun 1 2002))" by (simp only: c list.sel)
  note t = dedup_window_fifo [where sigs = "sigRun 1 2002" and ops = "sigRun 1 2002"
      and sig = "sigOf 2001" and w = "sigRun 2 2002"]
  have tl: "tl (sigRun 1 2002) = sigRun 2 2002" and hd: "hd (sigRun 1 2002) = sigOf 1"
    by (simp_all only: c list.sel)
  from t pre have w0: "markAll (sigRun 1 2002) [] = tl (sigRun 1 2002)"
    and f0: "fst (markProcessed (hd (sigRun 1 2002)) (markAll (sigRun 1 2002) []))"
    and all: "\<forall>s \<in> set (tl (sigRun 1 2002)).
        markProcessed s (markAll (sigRun 1 2002) []) = (False, markAll (sigRun 1 2002) [])"
    by blast+
  from w0 have w: "markAll (sigRun 1 2002) [] = sigRun 2 2002" by (simp only: tl)
  from f0 have f: "fst (markProcessed (sigOf 1) (markAll (sigRun 1 2002) []))" by (simp only: hd)
  from all last have "markProcessed (sigOf 2001) (markAll (sigRun 1 2002) []) =
      (False, markAll (sigRun 1 2002) [])" by blast
  moreover have "length (markAll (sigRun 1 2002) []) = 2000"
    unfolding w by (simp add: length_sigRun)
  ultimately show ?thesis using len w f by blast
qed

section \<open>Properties of the classifier\<close>

subsection \<open>The buy sweep\<close>

lemma sweepStep_cases:
  "sweepStep cfg pre b s =
     (if poolLoser cfg pre b
      then s\<lparr>totalBought := addLoss pre b (totalBought s), isTrade := True\<rparr>
      else if gainer cfg pre b
      then s\<lparr>maxBuyerBalance := fst (gainStep b (maxBuyerBalance s, buyer s)),
             buyer := snd (gainStep b (maxBuyerBalance s, buyer s))\<rparr>
      else s)"
  by (cases s)
    (auto simp: sweepStep_def poolLoser_def gainer_def addLoss_def gainStep_def Let_def
      split: option.splits)

text \<open>The sweep is two independent folds, one over the pool-side losers, one over the gainers.\<close>

lemma sweep_fold:
  "fold (sweepStep cfg pre) post s =
     \<lparr>totalBought = fold (addLoss pre) (filter (poolLoser cfg pre) post) (totalBought s),
      buyer = snd (fold gainStep (filter (gainer cfg pre) post) (maxBuyerBalance s, buyer s)),
      maxBuyerBalance = fst (fold gainStep (filter (gainer cfg pre) post) (maxBuyerBalance s, buyer s)),
      isTrade = (isTrade s \<or> filter (poolLoser cfg pre) post \<noteq> [])\<rparr>"
proof (induction post arbitrary: s)
  case Nil
  show ?case by simp
next
  case (Cons b post)
  have excl: "\<not> (poolLoser cfg pre b \<and> gainer cfg pre b)"
    by (auto simp: poolLoser_def gainer_def)
  note step = sweepStep_cases [of cfg pre b s]
  show ?case
  proof (cases "poolLoser cfg pre b")
    case True
    with excl have "\<not> gainer cfg pre b" by simp
    with True show ?thesis by (simp add: Cons.IH step)
  next
    case False
    then show ?thesis by (cases "gainer cfg pre b") (simp_all add: Cons.IH step)
  qed
qed

lemma buySweep_parts:
  "totalBought (buySweep cfg feePayer pre post) = fold (addLoss pre) (filter (poolLoser cfg pre) post) 0"
  "isTrade (buySweep cfg feePayer pre post) = (filter (poolLoser cfg pre) post \<noteq> [])"
  "buyer (buySweep cfg feePayer pre post) = snd (fold gainStep (filter (gainer cfg pre) post) (0, feePayer))"
  "maxBuyerBalance (buySweep cfg feePayer pre post) =
     fst (fold gainStep (filter (gainer cfg pre) post) (0, feePayer))"
  by (simp_all add: buySweep_def sweep_fold)

subsection \<open>The burn rules\<close>

lemma poolGain_tracked:
  assumes "poolEntriesTracked cfg pre" and "poolEntriesTracked cfg post"
  shows "poolGain cfg pre post = trackedPoolGain cfg pre post"
proof -
  have "find (\<lambda>b. owner b = Some (POOL_ID cfg)) xs =
        find (\<lambda>b. owner b = Some (POOL_ID cfg) \<and> mint b = VOID_MINT cfg) xs"
    if "poolEntriesTracked cfg xs" for xs
    using that by (induction xs) (auto simp: poolEntriesTracked_def)
  with assms show ?thesis by (simp add: poolGain_def trackedPoolGain_def Let_def)
qed

text \<open>The burn-instruction rule fires on the first pre entry that passes its two tests.\<close>

lemma instructionBurn_find:
  "instructionBurn cfg signature pre post xs =
     (case find (\<lambda>b. loses cfg post b \<and> poolGain cfg pre post < js_mul (lossOf post b) (lit (9 / 10))) xs of
        None \<Rightarrow> None
      | Some a \<Rightarrow> Some (Burn signature (owner a) (lossOf post a)))"
  by (induction xs) (auto simp: loses_def Let_def)

lemma instructionBurn_tracked:
  assumes "poolGain cfg pre post = trackedPoolGain cfg pre post"
  shows "instructionBurn cfg signature pre post xs =
     (case find (burnCandidate cfg pre post) xs of
        None \<Rightarrow> None
      | Some a \<Rightarrow> Some (Burn signature (owner a) (lossOf post a)))"
proof -
  have "burnCandidate cfg pre post =
      (\<lambda>b. loses cfg post b \<and> poolGain cfg pre post < js_mul (lossOf post b) (lit (9 / 10)))"
    by (simp add: burnCandidate_def assms fun_eq_iff)
  then show ?thesis by (simp only: instructionBurn_find)
qed

text \<open>When neither burn rule fires the outcome is that of the buy sweep, never a burn.\<close>

lemma processTransaction_sweep:
  assumes "meta tx = Some m"
    and "sinkBurn cfg signature (orEmpty (preTokenBalances m)) (orEmpty (postTokenBalances m))
           (deadTransfers cfg (orEmpty (postTokenBalances m))) = None"
    and "isBurnLog (orEmpty (logMessages m)) \<Longrightarrow>
         instructionBurn cfg signature (orEmpty (preTokenBalances m)) (orEmpty (postTokenBalances m))
           (orEmpty (preTokenBalances m)) = None"
    and "accountKeys tx = feePayer # keys"
  shows "processTransaction cfg signature (Some tx) =
     (let s = buySweep cfg feePayer (orEmpty (preTokenBalances m)) (orEmpty (postTokenBalances m)) in
      if isTrade s \<and> lit (1 / 100) < totalBought s \<and> buyer s \<noteq> HELPER_WALLET
      then Inr (Some (Buy signature (buyer s) (totalBought s) (maxBuyerBalance s)))
      else Inr None)"
  using assms by (simp add: processTransaction_def Let_def)

lemma processTransaction_burn:
  assumes "meta tx = Some m"
    and "sinkBurn cfg signature (orEmpty (preTokenBalances m)) (orEmpty (postTokenBalances m))
           (deadTransfers cfg (orEmpty (postTokenBalances m))) = None"
    and "isBurnLog (orEmpty (logMessages m))"
    and "instructionBurn cfg signature (orEmpty (preTokenBalances m)) (orEmpty (postTokenBalances m))
           (orEmpty (preTokenBalances m)) = Some e"
  shows "processTransaction cfg signature (Some tx) = Inr (Some e)"
  using assms by (simp add: processTransaction_def Let_def)

lemma processTransaction_no_burn:
  assumes "meta tx = Some m"
    and "sinkBurn cfg signature (orEmpty (preTokenBalances m)) (orEmpty (postTokenBalances m))
           (deadTransfers cfg (orEmpty (postTokenBalances m))) = None"
    and "instructionBurn cfg signature (orEmpty (preTokenBalances m)) (orEmpty (postTokenBalances m))
           (orEmpty (preTokenBalances m)) = None"
  shows "\<not> isBurnEvent (processTransaction cfg signature (Some tx))"
  using assms
  by (cases "accountKeys tx") (simp_all add: processTransaction_def Let_def isBurnEvent_def)

subsection \<open>The burn-instruction rule and the pool's gain\<close>

lemma find_none_of_filter:
  "filter P xs = [] \<Longrightarrow> (\<And>x. Q x \<Longrightarrow> P x) \<Longrightarrow> find Q xs = None"
  by (induction xs) (auto split: if_splits)

lemma find_single:
  "filter P xs = [a] \<Longrightarrow> (\<And>x. Q x \<Longrightarrow> P x) \<Longrightarrow> find Q xs = (if Q a then Some a else None)"
proof (induction xs)
  case Nil
  then show ?case by simp
next
  case (Cons x xs)
  show ?case
  proof (cases "P x")
    case True
    with Cons.prems(1) have "x = a" and "filter P xs = []" by simp_all
    with Cons.prems(2) show ?thesis by (simp add: find_none_of_filter [of P xs Q])
  next
    case False
    with Cons.prems(2) have "\<not> Q x" by blast
    with False Cons show ?thesis by simp
  qed
qed

text \<open>
  Claim C2. In a transaction whose log has a burn marker, with no burn-sink transfer and a
  tracked-mint account that lost \<open>loss > 0\<close> tokens, the burn of \<open>loss\<close> attributed to the
  owner of that account is emitted if and only if the tracked pool's own gain in the tracked
  mint is below \<open>loss * 0.9\<close>. The code does otherwise: the two lookups of lines 323-324
  select the pool's entries by owner alone, without the mint test of the other lookups, so
  when the first entry the pool owns is of another mint, \<open>poolGain\<close> is the change of that
  account. Here one account loses 100 tokens, the pool gains all 100 of them in the tracked
  mint, \<open>100 \<ge> 100 * 0.9 = 90\<close>, and the sale is still reported as a burn of 100.
\<close>

theorem pool_lookup_ignores_mint:
  "isBurnLog (orEmpty (logMessages (the (meta sellListingOtherMint)))) \<and>
   deadTransfers defaultConfig (orEmpty (postTokenBalances (the (meta sellListingOtherMint)))) = [] \<and>
   filter (loses defaultConfig (orEmpty (postTokenBalances (the (meta sellListingOtherMint)))))
     (orEmpty (preTokenBalances (the (meta sellListingOtherMint)))) =
     [entry 2 sampleMint sampleSeller 100] \<and>
   lossOf (orEmpty (postTokenBalances (the (meta sellListingOtherMint))))
     (entry 2 sampleMint sampleSeller 100) = 100 \<and>
   js_mul 100 (lit (9 / 10)) = 90 \<and>
   trackedPoolGain defaultConfig (orEmpty (preTokenBalances (the (meta sellListingOtherMint))))
       (orEmpty (postTokenBalances (the (meta sellListingOtherMint)))) = 100 \<and>
   poolGain defaultConfig (orEmpty (preTokenBalances (the (meta sellListingOtherMint))))
       (orEmpty (postTokenBalances (the (meta sellListingOtherMint)))) = - 1 \<and>
   processTransaction defaultConfig ''sig'' (Some sellListingOtherMint) =
     Inr (Some (Burn ''sig'' (Some sampleSeller) 100))"
  by code_simp

text \<open>
  First match wins. The rule fires on the first pre entry that passes its tests and the
  function returns: here a second account loses 50 while the pool gains nothing,
  \<open>0 < 50 * 0.9\<close>, and the only burn emitted is that of the first account.
\<close>

lemma burn_first_match_only:
  "isBurnLog (orEmpty (logMessages (the (meta twoLosers)))) \<and>
   deadTransfers defaultConfig (orEmpty (postTokenBalances (the (meta twoLosers)))) = [] \<and>
   loses defaultConfig (orEmpty (postTokenBalances (the (meta twoLosers)))) (entry 2 sampleMint sampleWallet 50) \<and>
   lossOf (orEmpty (postTokenBalances (the (meta twoLosers)))) (entry 2 sampleMint sampleWallet 50) = 50 \<and>
   trackedPoolGain defaultConfig (orEmpty (preTokenBalances (the (meta twoLosers))))
       (orEmpty (postTokenBalances (the (meta twoLosers)))) = 0 \<and>
   0 < js_mul 50 (lit (9 / 10)) \<and>
   processTransaction defaultConfig ''sig'' (Some twoLosers) =
     Inr (Some (Burn ''sig'' (Some sampleSeller) 100)) \<and>
   processTransaction defaultConfig ''sig'' (Some twoLosers) \<noteq>
     Inr (Some (Burn ''sig'' (Some sampleWallet) 50))"
  by code_simp

text \<open>
  The rule where the two lookups do find the pool's tracked-mint entries, that is, where
  \<open>poolGain\<close> is the pool's gain in the tracked mint. Take a transaction whose log has a burn
  marker and in which the burn-sink rule does not fire. Then a burn event is emitted exactly
  when some tracked-mint pre entry lost \<open>loss > 0\<close> tokens with \<open>poolGain < loss * 0.9\<close>, and
  it is attributed to the owner of the first such entry, with that entry's loss as amount.
  When exactly one tracked-mint account loses tokens, the burn of its loss attributed to its
  owner is emitted if and only if \<open>poolGain < loss * 0.9\<close>.
\<close>

lemma burn_instruction_rule:
  assumes "meta tx = Some m"
    and "pre = orEmpty (preTokenBalances m)" and "post = orEmpty (postTokenBalances m)"
    and "isBurnLog (orEmpty (logMessages m))"
    and "sinkBurn cfg signature pre post (deadTransfers cfg post) = None"
    and "poolGain cfg pre post = trackedPoolGain cfg pre post"
  shows
    "(case find (burnCandidate cfg pre post) pre of
        Some a \<Rightarrow> processTransaction cfg signature (Some tx) =
                   Inr (Some (Burn signature (owner a) (lossOf post a)))
      | None \<Rightarrow> \<not> isBurnEvent (processTransaction cfg signature (Some tx))) \<and>
     (filter (loses cfg post) pre = [b] \<longrightarrow>
        (processTransaction cfg signature (Some tx) =
           Inr (Some (Burn signature (owner b) (lossOf post b)))) =
        (trackedPoolGain cfg pre post < js_mul (lossOf post b) (lit (9 / 10))))"
proof -
  note rule = instructionBurn_tracked [OF assms(6), of signature pre]
  have first: "case find (burnCandidate cfg pre post) pre of
        Some a \<Rightarrow> processTransaction cfg signature (Some tx) =
                   Inr (Some (Burn signature (owner a) (lossOf post a)))
      | None \<Rightarrow> \<not> isBurnEvent (processTransaction cfg signature (Some tx))"
  proof (cases "find (burnCandidate cfg pre post) pre")
    case None
    then have "instructionBurn cfg signature pre post pre = None" by (simp add: rule)
    with assms have "\<not> isBurnEvent (processTransaction cfg signature (Some tx))"
      by (intro processTransaction_no_burn [of tx m]) simp_all
    with None show ?thesis by simp
  next
    case (Some a)
    then have "instructionBurn cfg signature pre post pre =
        Some (Burn signature (owner a) (lossOf post a))" by (simp add: rule)
    with assms have "processTransaction cfg signature (Some tx) =
        Inr (Some (Burn signature (owner a) (lossOf post a)))"
      by (intro processTransaction_burn [of tx m]) simp_all
    with Some show ?thesis by simp
  qed
  have second: "(processTransaction cfg signature (Some tx) =
           Inr (Some (Burn signature (owner b) (lossOf post b)))) =
        (trackedPoolGain cfg pre post < js_mul (lossOf post b) (lit (9 / 10)))"
    if single: "filter (loses cfg post) pre = [b]"
  proof -
    have "b \<in> set (filter (loses cfg post) pre)" by (simp add: single)
    then have l: "loses cfg post b" by simp
    have f: "find (burnCandidate cfg pre post) pre =
        (if burnCandidate cfg pre post b then Some b else None)"
      using single by (rule find_single) (simp add: burnCandidate_def)
    show ?thesis
    proof (cases "burnCandidate cfg pre post b")
      case True
      with first f l show ?thesis by (simp add: burnCandidate_def)
    next
      case False
      with first f have "\<not> isBurnEvent (processTransaction cfg signature (Some tx))" by simp
      then have "processTransaction cfg signature (Some tx) \<noteq>
          Inr (Some (Burn signature (owner b) (lossOf post b)))"
        by (auto simp: isBurnEvent_def)
      with False l show ?thesis by (simp add: burnCandidate_def)
    qed
  qed
  from first second show ?thesis by blast
qed

text \<open>The rule at a sale of 100 tokens of which the pool gains 10, and one of which it gains 99.\<close>

lemma burn_instruction_rule_examples:
  "processTransaction defaultConfig ''sig'' (Some (sellWithBurnLog 10)) =
     Inr (Some (Burn ''sig'' (Some sampleSeller) 100)) \<and>
   trackedPoolGain defaultConfig
       [entry 1 sampleMint sampleSeller 100, entry 2 sampleMint samplePool 1000]
       [entry 1 sampleMint sampleSeller 0, entry 2 sampleMint samplePool (1000 + 10)] = 10 \<and>
   processTransaction defaultConfig ''sig'' (Some (sellWithBurnLog 99)) = Inr None \<and>
   \<not> isBurnEvent (processTransaction defaultConfig ''sig'' (Some (sellWithBurnLog 99))) \<and>
   trackedPoolGain defaultConfig
       [entry 1 sampleMint sampleSeller 100, entry 2 sampleMint samplePool 1000]
       [entry 1 sampleMint sampleSeller 0, entry 2 sampleMint samplePool (1000 + 99)] = 99 \<and>
   js_mul 100 (lit (9 / 10)) = 90"
proof -
  let ?pre = "[entry 1 sampleMint sampleSeller 100, entry 2 sampleMint samplePool 1000]"
  let ?post = "\<lambda>g. [entry 1 sampleMint sampleSeller 0, entry 2 sampleMint samplePool (1000 + g)]"
  let ?m = "\<lambda>g. \<lparr>preTokenBalances = Some ?pre, postTokenBalances = Some (?post g),
      logMessages = Some [''Program log: Instruction: Burn'']\<rparr>"
  let ?a = "entry 1 sampleMint sampleSeller 100"
  have meta: "meta (sellWithBurnLog g) = Some (?m g)" for g
    by (simp add: sellWithBurnLog_def txOf_def)
  have pre: "?pre = orEmpty (preTokenBalances (?m g))"
    and post: "?post g = orEmpty (postTokenBalances (?m g))" for g
    by (simp_all add: orEmpty_def)
  have log: "isBurnLog (orEmpty (logMessages (?m g)))" for g
    by (simp add: orEmpty_def) code_simp
  have sink10: "sinkBurn defaultConfig ''sig'' ?pre (?post 10) (deadTransfers defaultConfig (?post 10)) = None"
    and sink99: "sinkBurn defaultConfig ''sig'' ?pre (?post 99) (deadTransfers defaultConfig (?post 99)) = None"
    by code_simp+
  have tracked: "poolGain defaultConfig ?pre (?post 10) = trackedPoolGain defaultConfig ?pre (?post 10)"
    "poolGain defaultConfig ?pre (?post 99) = trackedPoolGain defaultConfig ?pre (?post 99)"
    by code_simp+
  have single10: "filter (loses defaultConfig (?post 10)) ?pre = [?a]"
    and single99: "filter (loses defaultConfig (?post 99)) ?pre = [?a]"
    by code_simp+
  have loss10: "lossOf (?post 10) ?a = 100" and loss99: "lossOf (?post 99) ?a = 100"
    by code_simp+
  have gain10: "trackedPoolGain defaultConfig ?pre (?post 10) = 10"
    and gain99: "trackedPoolGain defaultConfig ?pre (?post 99) = 99"
    by code_simp+
  have ninety: "js_mul 100 (lit (9 / 10)) = 90" by code_simp
  have own: "owner ?a = Some sampleSeller" by (simp add: entry_def)
  note t10 = burn_instruction_rule [OF meta pre post log sink10 tracked(1), of ?a]
  note t99 = burn_instruction_rule [OF meta pre post log sink99 tracked(2), of ?a]
  have eq10: "(processTransaction defaultConfig ''sig'' (Some (sellWithBurnLog 10)) =
        Inr (Some (Burn ''sig'' (owner ?a) (lossOf (?post 10) ?a)))) =
      (trackedPoolGain defaultConfig ?pre (?post 10) < js_mul (lossOf (?post 10) ?a) (lit (9 / 10)))"
    using t10 single10 by blast
  have eq99: "(processTransaction defaultConfig ''sig'' (Some (sellWithBurnLog 99)) =
        Inr (Some (Burn ''sig'' (owner ?a) (lossOf (?post 99) ?a)))) =
      (trackedPoolGain defaultConfig ?pre (?post 99) < js_mul (lossOf (?post 99) ?a) (lit (9 / 10)))"
    using t99 single99 by blast
  have lt: "(10::number) < 90" and ge: "\<not> (99::number) < 90" by simp_all
  from eq10 lt have "processTransaction defaultConfig ''sig'' (Some (sellWithBurnLog 10)) =
      Inr (Some (Burn ''sig'' (Some sampleSeller) 100))"
    unfolding loss10 gain10 ninety own by blast
  moreover from eq99 ge
  have "processTransaction defaultConfig ''sig'' (Some (sellWithBurnLog 99)) \<noteq>
      Inr (Some (Burn ''sig'' (Some sampleSeller) 100))"
    unfolding loss99 gain99 ninety own by blast
  moreover have none: "processTransaction defaultConfig ''sig'' (Some (sellWithBurnLog 99)) = Inr None"
    by code_simp
  then have "\<not> isBurnEvent (processTransaction defaultConfig ''sig'' (Some (sellWithBurnLog 99)))"
    by (simp add: isBurnEvent_def)
  ultimately show ?thesis using gain10 gain99 ninety none by blast
qed

subsection \<open>Buys aggregated over the pool side\<close>

lemma gainer_positive_balance:
  assumes "gainer cfg pre w" and "0 \<le> amountOf (byIndex pre w)"
  shows "0 < amountOf (Some w)"
proof -
  from assms(1) have "0 < js_sub (amountOf (Some w)) (amountOf (byIndex pre w))"
    by (simp add: gainer_def deltaOf_def)
  then have "amountOf (byIndex pre w) < amountOf (Some w)" by (rule js_sub_pos_imp)
  with assms(2) show ?thesis by simp
qed




text \<open>
  The same transaction with the helper wallet as the owner of the gaining account: the
  sweep finds the same trade, and nothing is emitted.
\<close>

lemma helper_wallet_never_buys:
  assumes "meta tx = Some m"
    and "pre = orEmpty (preTokenBalances m)" and "post = orEmpty (postTokenBalances m)"
    and "accountKeys tx = feePayer # keys"
    and "\<not> isBurnLog (orEmpty (logMessages m))"
    and "sinkBurn cfg signature pre post (deadTransfers cfg post) = None"
    and "filter (gainer cfg pre) post = [w]"
    and "owner w = Some HELPER_WALLET"
    and "0 \<le> amountOf (byIndex pre w)"
  shows "processTransaction cfg signature (Some tx) = Inr None"
proof -
  let ?s = "buySweep cfg feePayer pre post"
  have "w \<in> set (filter (gainer cfg pre) post)" by (simp add: assms(7))
  then have "gainer cfg pre w" by simp
  then have "0 < amountOf (Some w)" using assms(9) by (rule gainer_positive_balance)
  then have who: "buyer ?s = HELPER_WALLET"
    using assms(7,8) by (simp add: buySweep_parts gainStep_def HELPER_WALLET_def)
  have "processTransaction cfg signature (Some tx) =
     (let s = buySweep cfg feePayer (orEmpty (preTokenBalances m)) (orEmpty (postTokenBalances m)) in
      if isTrade s \<and> lit (1 / 100) < totalBought s \<and> buyer s \<noteq> HELPER_WALLET
      then Inr (Some (Buy signature (buyer s) (totalBought s) (maxBuyerBalance s)))
      else Inr None)"
    using assms(1,4,5,6) unfolding assms(2,3)
    by (intro processTransaction_sweep) simp_all
  then show ?thesis
    using who by (simp add: assms(2,3) [symmetric] Let_def)
qed

subsection \<open>A trade in which no balance grows\<close>

text \<open>
  Claim C10. When neither burn rule fires, the sweep marks the transaction a trade with more
  than the dust floor of 0.01 token bought, and no tracked-mint balance of the transaction
  increased, then the Buy event, emitted unless the fee payer is the helper wallet, is
  attributed to the fee payer (the first account key) with a resulting balance of 0; and
  whenever the arbitrage balance threshold is positive such a buy is an arbitrage: its
  notification carries the arbitrage image and no holder line.
\<close>

theorem buy_without_recipient:
  assumes "meta tx = Some m"
    and "pre = orEmpty (preTokenBalances m)" and "post = orEmpty (postTokenBalances m)"
    and "accountKeys tx = feePayer # keys"
    and "sinkBurn cfg signature pre post (deadTransfers cfg post) = None"
    and "isBurnLog (orEmpty (logMessages m)) \<longrightarrow> instructionBurn cfg signature pre post pre = None"
    and "isTrade (buySweep cfg feePayer pre post)"
    and "lit (1 / 100) < totalBought (buySweep cfg feePayer pre post)"
    and "filter (gainer cfg pre) post = []"
  shows
    "(feePayer \<noteq> HELPER_WALLET \<longrightarrow>
        processTransaction cfg signature (Some tx) =
          Inr (Some (Buy signature feePayer (totalBought (buySweep cfg feePayer pre post)) 0))) \<and>
     (\<forall>e. processTransaction cfg signature (Some tx) = Inr (Some e) \<longrightarrow>
        e = Buy signature feePayer (totalBought (buySweep cfg feePayer pre post)) 0) \<and>
     (0 < ARB_BALANCE_THRESHOLD cfg \<longrightarrow>
        isArbitrageBalance cfg 0 \<and>
        (\<forall>price circulating amount msg.
           handleBuy cfg price circulating signature feePayer amount 0 = Inr [msg] \<longrightarrow>
             photo msg = ARB_IMAGE_URL cfg \<and>
             (\<exists>c. caption msg = BuyText c \<and> holderLine c = None)))"
proof -
  let ?s = "buySweep cfg feePayer pre post"
  have who: "buyer ?s = feePayer" and bal: "maxBuyerBalance ?s = 0"
    using assms(9) by (simp_all add: buySweep_parts)
  have "processTransaction cfg signature (Some tx) =
     (let s = buySweep cfg feePayer (orEmpty (preTokenBalances m)) (orEmpty (postTokenBalances m)) in
      if isTrade s \<and> lit (1 / 100) < totalBought s \<and> buyer s \<noteq> HELPER_WALLET
      then Inr (Some (Buy signature (buyer s) (totalBought s) (maxBuyerBalance s)))
      else Inr None)"
    using assms(1,4,5,6) unfolding assms(2,3)
    by (intro processTransaction_sweep) simp_all
  then have res: "processTransaction cfg signature (Some tx) =
      (if feePayer \<noteq> HELPER_WALLET then Inr (Some (Buy signature feePayer (totalBought ?s) 0))
       else Inr None)"
    using assms(7,8) who bal by (simp add: assms(2,3) [symmetric] Let_def)
  have arb: "photo msg = ARB_IMAGE_URL cfg \<and> (\<exists>c. caption msg = BuyText c \<and> holderLine c = None)"
    if "0 < ARB_BALANCE_THRESHOLD cfg"
      and "handleBuy cfg price circulating signature feePayer amount 0 = Inr [msg]"
    for price circulating amount msg
    using that
    by (auto simp: handleBuy_def isArbitrageBalance_def Let_def
        split: option.splits if_splits sum.splits)
  show ?thesis
    using res arb by (auto simp: isArbitrageBalance_def)
qed

theorem buy_without_recipient_witness:
  "processTransaction defaultConfig ''sig'' (Some poolOutflowOnly) =
     Inr (Some (Buy ''sig'' sampleWallet 50 0)) \<and>
   isArbitrageBalance defaultConfig 0 \<and>
   map photo (projr (handleBuy defaultConfig (Some \<lparr>usd = 1, solPrice = 0\<rparr>) 100000000 ''sig''
      sampleWallet 50 0)) = [ARB_IMAGE_URL defaultConfig]"
proof -
  let ?pre = "[entry 1 sampleMint samplePool 1000]"
  let ?post = "[entry 1 sampleMint samplePool 950]"
  let ?m = "\<lparr>preTokenBalances = Some ?pre, postTokenBalances = Some ?post,
      logMessages = Some [''Program log: Instruction: Swap'']\<rparr>"
  have meta: "meta poolOutflowOnly = Some ?m"
    by (simp add: poolOutflowOnly_def txOf_def)
  have pre: "?pre = orEmpty (preTokenBalances ?m)" and post: "?post = orEmpty (postTokenBalances ?m)"
    by (simp_all add: orEmpty_def)
  have keys: "accountKeys poolOutflowOnly = sampleWallet # []"
    by (simp add: poolOutflowOnly_def txOf_def)
  have "\<not> isBurnLog (orEmpty (logMessages ?m))"
    by (simp add: orEmpty_def) code_simp
  then have log: "isBurnLog (orEmpty (logMessages ?m)) \<longrightarrow>
      instructionBurn defaultConfig ''sig'' ?pre ?post ?pre = None" by simp
  have sink: "sinkBurn defaultConfig ''sig'' ?pre ?post (deadTransfers defaultConfig ?post) = None"
    by code_simp
  have trade: "isTrade (buySweep defaultConfig sampleWallet ?pre ?post)"
    and total: "totalBought (buySweep defaultConfig sampleWallet ?pre ?post) = 50"
    by code_simp+
  have dust: "lit (1 / 100) < totalBought (buySweep defaultConfig sampleWallet ?pre ?post)"
    unfolding total by code_simp
  have nogain: "filter (gainer defaultConfig ?pre) ?post = []"
    by code_simp
  have nh: "sampleWallet \<noteq> HELPER_WALLET"
    by (simp add: sampleWallet_def HELPER_WALLET_def)
  have thr: "0 < ARB_BALANCE_THRESHOLD defaultConfig" by (simp add: defaultConfig_def)
  note t = buy_without_recipient [OF meta pre post keys sink log trade dust nogain]
  from t nh have "processTransaction defaultConfig ''sig'' (Some poolOutflowOnly) =
      Inr (Some (Buy ''sig'' sampleWallet (totalBought (buySweep defaultConfig sampleWallet ?pre ?post)) 0))"
    by blast
  then have "processTransaction defaultConfig ''sig'' (Some poolOutflowOnly) =
      Inr (Some (Buy ''sig'' sampleWallet 50 0))" by (simp only: total)
  moreover from t thr have "isArbitrageBalance defaultConfig 0" by blast
  moreover have "map photo (projr (handleBuy defaultConfig (Some \<lparr>usd = 1, solPrice = 0\<rparr>) 100000000
      ''sig'' sampleWallet 50 0)) = [ARB_IMAGE_URL defaultConfig]"
    by code_simp
  ultimately show ?thesis by blast
qed

section \<open>Properties of the buy handler\<close>




end
